theory Spec2Isabelle
  imports Main "HOL-Library.Word"
begin

section \<open>Values consumed from the solver\<close>

text \<open>
  Modelled from the spec: the headers included by \<^verbatim>\<open>lib/Sema/CSFix.h\<close>
  (\<^verbatim>\<open>swift/AST/Type.h\<close>, \<^verbatim>\<open>Types.h\<close>, \<^verbatim>\<open>Decl.h\<close>, \<^verbatim>\<open>Identifier.h\<close>, the
  constraint system and its locators) are not under \<^verbatim>\<open>src/\<close>. The spec treats them as
  opaque values that a fix stores and forwards, so each is kept as a small value type
  that carries only what the header observes: whether a pointer or a \<^verbatim>\<open>Type\<close> is null,
  \<^verbatim>\<open>is<BoundGenericType>()\<close>, \<^verbatim>\<open>FunctionType::throws()\<close> and \<^verbatim>\<open>VarDecl::getName()\<close>.
\<close>

text \<open>A C++ pointer: \<open>None\<close> is \<^verbatim>\<open>nullptr\<close>.\<close>

type_synonym 'a pointer = "'a option"

text \<open>The owning solving session (held by reference) and a locator, by identity.\<close>

datatype ConstraintSystem = ConstraintSystem nat

datatype ConstraintLocator = ConstraintLocator nat

type_synonym Identifier = string

type_synonym DeclName = string

text \<open>Declarations, statements and expressions are referred to by address.\<close>

type_synonym address = nat

type_synonym SourceRange = "nat \<times> nat"

datatype TypeBase =
    NominalType string
  | BoundGenericType string "TypeBase list"
  | TupleType "(Identifier \<times> TypeBase option) list"
  | AnyFunctionType "TypeBase list" TypeBase bool
  | GenericTypeParam nat nat
  | TypeVariableType nat

text \<open>\<^verbatim>\<open>swift::Type\<close> wraps a \<^verbatim>\<open>TypeBase *\<close> that may be null; \<^verbatim>\<open>Type()\<close> is the null type.\<close>

type_synonym Type = "TypeBase pointer"

definition Type_default :: Type where
  "Type_default = None"

text \<open>A \<^verbatim>\<open>FunctionType\<close> with its parameter types, result type and \<^verbatim>\<open>throws\<close> bit.\<close>

datatype FunctionType =
  FunctionType (getParams: "TypeBase list") (getResult: TypeBase) (throws: bool)

text \<open>The implicit conversion of a \<^verbatim>\<open>FunctionType *\<close> to a \<^verbatim>\<open>Type\<close>.\<close>

definition FunctionType_asType :: "FunctionType pointer \<Rightarrow> Type" where
  "FunctionType_asType p =
     (case p of None \<Rightarrow> None
      | Some f \<Rightarrow> Some (AnyFunctionType (getParams f) (getResult f) (throws f)))"

datatype GenericTypeParamType = GenericTypeParamType nat nat

text \<open>\<^verbatim>\<open>AnyFunctionType::Param\<close>: a type, a label and the parameter flags (an 8-bit set).\<close>

record Param =
  Ty :: Type
  Label :: Identifier
  Flags :: "8 word"

text \<open>
  A variable declaration, reached through a \<^verbatim>\<open>VarDecl *\<close>. The declarations live in a
  store, an association list from addresses to declarations.
\<close>

record VarDecl =
  VarDecl_name :: Identifier

type_synonym DeclStore = "(address \<times> VarDecl) list"

text \<open>\<^verbatim>\<open>StringRef::startswith\<close>.\<close>

definition startswith :: "string \<Rightarrow> string \<Rightarrow> bool" where
  "startswith s p = (length p \<le> length s \<and> take (length p) s = p)"

text \<open>
  What stops construction or a query in an assertion-enabled build: a failed
  \<^verbatim>\<open>assert\<close>, a member call through a null pointer, a write past the trailing storage.
\<close>

datatype error = AssertionFailure | NullDereference | BufferOverrun

text \<open>\<^verbatim>\<open>type->is<BoundGenericType>()\<close>: the call goes through the wrapped pointer.\<close>

definition is_BoundGenericType :: "Type \<Rightarrow> error + bool" where
  "is_BoundGenericType t =
     (case t of None \<Rightarrow> Inl NullDereference
      | Some b \<Rightarrow> Inr (case b of BoundGenericType d as \<Rightarrow> True | _ \<Rightarrow> False))"

section \<open>FixKind\<close>

datatype FixKind =
    ForceOptional
  | UnwrapOptionalBase
  | UnwrapOptionalBaseWithOptionalResult
  | ForceDowncast
  | AddressOf
  | RemoveAddressOf
  | CoerceToCheckedCast
  | ExplicitlyEscaping
  | RelabelArguments
  | TreatRValueAsLValue
  | AddConformance
  | SkipSameTypeRequirement
  | SkipSuperclassRequirement
  | ContextualMismatch
  | GenericArgumentsMismatch
  | AutoClosureForwarding
  | RemoveUnwrap
  | InsertCall
  | UsePropertyWrapper
  | UseWrappedValue
  | UseSubscriptOperator
  | DefineMemberBasedOnUse
  | AllowTypeOrInstanceMember
  | AllowInvalidPartialApplication
  | AllowInvalidInitRef
  | AllowTupleTypeMismatch
  | AllowMemberRefOnExistential
  | AddMissingArguments
  | AllowClosureParameterDestructuring
  | MoveOutOfOrderArgument
  | AllowInaccessibleMember
  | AllowAnyObjectKeyPathRoot
  | TreatKeyPathSubscriptIndexAsHashable
  | AllowInvalidRefInKeyPath
  | RemoveReturn
  | ExplicitlySpecifyGenericArguments
  | SkipUnhandledConstructInFunctionBuilder
  | AllowMutatingMemberOnRValueBase
  | AllowTupleSplatForSingleParameter
  | AllowArgumentTypeMismatch
  | ExplicitlyConstructRawRepresentable
  | UseValueTypeOfRawRepresentative
  | ExpandArrayIntoVarargs

section \<open>The abstract fix\<close>

record ConstraintFix =
  CS :: ConstraintSystem
  Kind :: FixKind
  Locator :: "ConstraintLocator pointer"
  IsWarning :: bool

text \<open>
  \<^verbatim>\<open>ConstraintFix(cs, kind, locator, warning = false)\<close>. The callers below that leave
  the last argument out pass its default, \<open>False\<close>.
\<close>

definition ConstraintFix_ctor ::
  "ConstraintSystem \<Rightarrow> FixKind \<Rightarrow> ConstraintLocator pointer \<Rightarrow> bool \<Rightarrow> ConstraintFix" where
  "ConstraintFix_ctor cs kind locator warning =
     \<lparr>CS = cs, Kind = kind, Locator = locator, IsWarning = warning\<rparr>"

definition getKind :: "'a ConstraintFix_scheme \<Rightarrow> FixKind" where
  "getKind fix = Kind fix"

definition isWarning :: "'a ConstraintFix_scheme \<Rightarrow> bool" where
  "isWarning fix = IsWarning fix"

definition getLocator :: "'a ConstraintFix_scheme \<Rightarrow> ConstraintLocator pointer" where
  "getLocator fix = Locator fix"

definition getConstraintSystem :: "'a ConstraintFix_scheme \<Rightarrow> ConstraintSystem" where
  "getConstraintSystem fix = CS fix"

section \<open>Trailing storage\<close>

text \<open>
  The cells that follow an object in its allocation (\<^verbatim>\<open>llvm::TrailingObjects\<close>): one
  entry per allocated slot, \<open>None\<close> while the slot is uninitialised.
  \<^verbatim>\<open>std::uninitialized_copy(first, last, dest)\<close> constructs the elements one after the
  other from \<open>dest\<close> on; a write outside the allocation is reported as an error.
\<close>

fun uninitialized_copy :: "'a list \<Rightarrow> nat \<Rightarrow> 'a option list \<Rightarrow> error + 'a option list" where
  "uninitialized_copy [] d buf = Inr buf"
| "uninitialized_copy (x # xs) d buf =
     (if d < length buf then uninitialized_copy xs (Suc d) (buf[d := Some x])
      else Inl BufferOverrun)"

text \<open>
  An \<^verbatim>\<open>ArrayRef\<close> of \<open>n\<close> elements over the trailing storage, as built by
  \<^verbatim>\<open>{getTrailingObjects<T>(), n}\<close>. The count is an \<^verbatim>\<open>unsigned\<close>, 32 bits wide; the
  size of a sequence handed to a constructor is a \<^verbatim>\<open>size_t\<close>, which is wider on the
  64-bit hosts of the compiler, so that the length of a list is not bounded here.
\<close>

definition trailing_view :: "32 word \<Rightarrow> 'a option list \<Rightarrow> 'a option list" where
  "trailing_view n buf = take (unat n) buf"

section \<open>The concrete fixes\<close>

subsection \<open>ForceOptional\<close>

record ForceOptional = ConstraintFix +
  BaseType :: Type
  UnwrappedType :: Type

definition ForceOptional_ctor ::
  "ConstraintSystem \<Rightarrow> Type \<Rightarrow> Type \<Rightarrow> ConstraintLocator pointer \<Rightarrow> error + ForceOptional" where
  "ForceOptional_ctor cs baseType unwrappedType locator =
     (let fix = ConstraintFix.extend
                  (ConstraintFix_ctor cs FixKind.ForceOptional locator False)
                  (ForceOptional.fields baseType unwrappedType)
      in if baseType = None then Inl AssertionFailure
         else if unwrappedType = None then Inl AssertionFailure
         else Inr fix)"

subsection \<open>UnwrapOptionalBase\<close>

record UnwrapOptionalBase = ConstraintFix +
  MemberName :: DeclName

definition UnwrapOptionalBase_ctor ::
  "ConstraintSystem \<Rightarrow> FixKind \<Rightarrow> DeclName \<Rightarrow> ConstraintLocator pointer
     \<Rightarrow> error + UnwrapOptionalBase" where
  "UnwrapOptionalBase_ctor cs kind member locator =
     (let fix = ConstraintFix.extend (ConstraintFix_ctor cs kind locator False)
                  (UnwrapOptionalBase.fields member)
      in if kind = FixKind.UnwrapOptionalBase \<or>
            kind = FixKind.UnwrapOptionalBaseWithOptionalResult
         then Inr fix else Inl AssertionFailure)"

subsection \<open>TreatRValueAsLValue\<close>

type_synonym TreatRValueAsLValue = ConstraintFix

definition TreatRValueAsLValue_ctor ::
  "ConstraintSystem \<Rightarrow> ConstraintLocator pointer \<Rightarrow> TreatRValueAsLValue" where
  "TreatRValueAsLValue_ctor cs locator =
     ConstraintFix_ctor cs FixKind.TreatRValueAsLValue locator False"

subsection \<open>MarkExplicitlyEscaping\<close>

record MarkExplicitlyEscaping = ConstraintFix +
  ConvertTo :: Type

text \<open>
  \<^verbatim>\<open>MarkExplicitlyEscaping(cs, locator, convertingTo = Type())\<close>: the last argument is
  optional at the call, \<open>None\<close> when it is left out and the default \<^verbatim>\<open>Type()\<close> is used.
\<close>

definition MarkExplicitlyEscaping_ctor ::
  "ConstraintSystem \<Rightarrow> ConstraintLocator pointer \<Rightarrow> Type option \<Rightarrow> MarkExplicitlyEscaping" where
  "MarkExplicitlyEscaping_ctor cs locator convertingTo =
     ConstraintFix.extend (ConstraintFix_ctor cs FixKind.ExplicitlyEscaping locator False)
       (MarkExplicitlyEscaping.fields
          (case convertingTo of None \<Rightarrow> Type_default | Some t \<Rightarrow> t))"

subsection \<open>RelabelArguments\<close>

record RelabelArguments = ConstraintFix +
  NumLabels :: "32 word"
  Labels_storage :: "Identifier option list"

text \<open>
  The constructor runs on an allocation whose trailing cells are \<open>mem\<close>. The count is
  initialised from \<^verbatim>\<open>correctLabels.size()\<close>, a \<^verbatim>\<open>size_t\<close> narrowed to \<^verbatim>\<open>unsigned\<close>,
  and the labels are copied to the start of the trailing cells.
\<close>

definition RelabelArguments_ctor ::
  "Identifier option list \<Rightarrow> ConstraintSystem \<Rightarrow> Identifier list \<Rightarrow> ConstraintLocator pointer
     \<Rightarrow> error + RelabelArguments" where
  "RelabelArguments_ctor mem cs correctLabels locator =
     (case uninitialized_copy correctLabels 0 mem of
        Inl e \<Rightarrow> Inl e
      | Inr mem' \<Rightarrow>
          Inr (ConstraintFix.extend
                 (ConstraintFix_ctor cs FixKind.RelabelArguments locator False)
                 (RelabelArguments.fields (of_nat (length correctLabels)) mem')))"

definition getLabels :: "RelabelArguments \<Rightarrow> Identifier option list" where
  "getLabels fix = trailing_view (NumLabels fix) (Labels_storage fix)"

subsection \<open>MissingConformance\<close>

record MissingConformance = ConstraintFix +
  IsContextual :: bool
  NonConformingType :: Type
  ProtocolType :: Type

definition MissingConformance_ctor ::
  "ConstraintSystem \<Rightarrow> bool \<Rightarrow> Type \<Rightarrow> Type \<Rightarrow> ConstraintLocator pointer
     \<Rightarrow> MissingConformance" where
  "MissingConformance_ctor cs isContextual type protocolType locator =
     ConstraintFix.extend (ConstraintFix_ctor cs FixKind.AddConformance locator False)
       (MissingConformance.fields isContextual type protocolType)"

subsection \<open>SkipSameTypeRequirement and SkipSuperclassRequirement\<close>

record SkipSameTypeRequirement = ConstraintFix +
  LHS :: Type
  RHS :: Type

definition SkipSameTypeRequirement_ctor ::
  "ConstraintSystem \<Rightarrow> Type \<Rightarrow> Type \<Rightarrow> ConstraintLocator pointer
     \<Rightarrow> SkipSameTypeRequirement" where
  "SkipSameTypeRequirement_ctor cs lhs rhs locator =
     ConstraintFix.extend
       (ConstraintFix_ctor cs FixKind.SkipSameTypeRequirement locator False)
       (SkipSameTypeRequirement.fields lhs rhs)"

record SkipSuperclassRequirement = ConstraintFix +
  LHS :: Type
  RHS :: Type

definition SkipSuperclassRequirement_ctor ::
  "ConstraintSystem \<Rightarrow> Type \<Rightarrow> Type \<Rightarrow> ConstraintLocator pointer
     \<Rightarrow> SkipSuperclassRequirement" where
  "SkipSuperclassRequirement_ctor cs lhs rhs locator =
     ConstraintFix.extend
       (ConstraintFix_ctor cs FixKind.SkipSuperclassRequirement locator False)
       (SkipSuperclassRequirement.fields lhs rhs)"

subsection \<open>The contextual-mismatch family\<close>

record ContextualMismatch = ConstraintFix +
  LHS :: Type
  RHS :: Type

text \<open>The constructor without a kind uses \<^verbatim>\<open>FixKind::ContextualMismatch\<close>.\<close>

definition ContextualMismatch_ctor ::
  "ConstraintSystem \<Rightarrow> Type \<Rightarrow> Type \<Rightarrow> ConstraintLocator pointer \<Rightarrow> ContextualMismatch" where
  "ContextualMismatch_ctor cs lhs rhs locator =
     ConstraintFix.extend (ConstraintFix_ctor cs FixKind.ContextualMismatch locator False)
       (ContextualMismatch.fields lhs rhs)"

definition ContextualMismatch_ctor_kind ::
  "ConstraintSystem \<Rightarrow> FixKind \<Rightarrow> Type \<Rightarrow> Type \<Rightarrow> ConstraintLocator pointer \<Rightarrow> bool
     \<Rightarrow> ContextualMismatch" where
  "ContextualMismatch_ctor_kind cs kind lhs rhs locator warning =
     ConstraintFix.extend (ConstraintFix_ctor cs kind locator warning)
       (ContextualMismatch.fields lhs rhs)"

definition getFromType :: "'a ContextualMismatch_scheme \<Rightarrow> Type" where
  "getFromType fix = ContextualMismatch.LHS fix"

definition getToType :: "'a ContextualMismatch_scheme \<Rightarrow> Type" where
  "getToType fix = ContextualMismatch.RHS fix"

type_synonym DropThrowsAttribute = ContextualMismatch

text \<open>
  The base is initialised from the two pointers, then the assertion calls
  \<^verbatim>\<open>throws()\<close> through each of them.
\<close>

definition DropThrowsAttribute_ctor ::
  "ConstraintSystem \<Rightarrow> FunctionType pointer \<Rightarrow> FunctionType pointer
     \<Rightarrow> ConstraintLocator pointer \<Rightarrow> error + DropThrowsAttribute" where
  "DropThrowsAttribute_ctor cs fromType toType locator =
     (let fix = ContextualMismatch_ctor cs (FunctionType_asType fromType)
                  (FunctionType_asType toType) locator
      in case fromType of
           None \<Rightarrow> Inl NullDereference
         | Some f \<Rightarrow>
             (case toType of
                None \<Rightarrow> Inl NullDereference
              | Some t \<Rightarrow> if throws f \<noteq> throws t then Inr fix else Inl AssertionFailure))"

type_synonym ForceDowncast = ContextualMismatch

definition ForceDowncast_ctor ::
  "ConstraintSystem \<Rightarrow> Type \<Rightarrow> Type \<Rightarrow> ConstraintLocator pointer \<Rightarrow> ForceDowncast" where
  "ForceDowncast_ctor cs fromType toType locator =
     ContextualMismatch_ctor_kind cs FixKind.ForceDowncast fromType toType locator False"

type_synonym AddAddressOf = ContextualMismatch

definition AddAddressOf_ctor ::
  "ConstraintSystem \<Rightarrow> Type \<Rightarrow> Type \<Rightarrow> ConstraintLocator pointer \<Rightarrow> AddAddressOf" where
  "AddAddressOf_ctor cs argTy paramTy locator =
     ContextualMismatch_ctor_kind cs FixKind.AddressOf argTy paramTy locator False"

type_synonym RemoveAddressOf = ContextualMismatch

definition RemoveAddressOf_ctor ::
  "ConstraintSystem \<Rightarrow> Type \<Rightarrow> Type \<Rightarrow> ConstraintLocator pointer \<Rightarrow> RemoveAddressOf" where
  "RemoveAddressOf_ctor cs lhs rhs locator =
     ContextualMismatch_ctor_kind cs FixKind.RemoveAddressOf lhs rhs locator False"

record GenericArgumentsMismatch = ContextualMismatch +
  NumMismatches :: "32 word"
  Mismatches_storage :: "32 word option list"

definition GenericArgumentsMismatch_ctor ::
  "32 word option list \<Rightarrow> ConstraintSystem \<Rightarrow> Type \<Rightarrow> Type \<Rightarrow> 32 word list
     \<Rightarrow> ConstraintLocator pointer \<Rightarrow> error + GenericArgumentsMismatch" where
  "GenericArgumentsMismatch_ctor mem cs actual required mismatches locator =
     (let base = ContextualMismatch_ctor_kind cs FixKind.GenericArgumentsMismatch
                   actual required locator False
      in case is_BoundGenericType actual of
           Inl e \<Rightarrow> Inl e
         | Inr a \<Rightarrow>
             if \<not> a then Inl AssertionFailure
             else (case is_BoundGenericType required of
                     Inl e \<Rightarrow> Inl e
                   | Inr r \<Rightarrow>
                       if \<not> r then Inl AssertionFailure
                       else (case uninitialized_copy mismatches 0 mem of
                               Inl e \<Rightarrow> Inl e
                             | Inr mem' \<Rightarrow>
                                 Inr (ContextualMismatch.extend base
                                        (GenericArgumentsMismatch.fields
                                           (of_nat (length mismatches)) mem')))))"

definition getMismatches :: "GenericArgumentsMismatch \<Rightarrow> 32 word option list" where
  "getMismatches fix = trailing_view (NumMismatches fix) (Mismatches_storage fix)"

type_synonym KeyPathContextualMismatch = ContextualMismatch

definition KeyPathContextualMismatch_ctor ::
  "ConstraintSystem \<Rightarrow> Type \<Rightarrow> Type \<Rightarrow> ConstraintLocator pointer
     \<Rightarrow> KeyPathContextualMismatch" where
  "KeyPathContextualMismatch_ctor cs lhs rhs locator =
     ContextualMismatch_ctor cs lhs rhs locator"

type_synonym AllowAutoClosurePointerConversion = ContextualMismatch

definition AllowAutoClosurePointerConversion_ctor ::
  "ConstraintSystem \<Rightarrow> Type \<Rightarrow> Type \<Rightarrow> ConstraintLocator pointer
     \<Rightarrow> AllowAutoClosurePointerConversion" where
  "AllowAutoClosurePointerConversion_ctor cs pointeeType pointerType locator =
     ContextualMismatch_ctor cs pointeeType pointerType locator"

type_synonym AllowTupleTypeMismatch = ContextualMismatch

definition AllowTupleTypeMismatch_ctor ::
  "ConstraintSystem \<Rightarrow> Type \<Rightarrow> Type \<Rightarrow> ConstraintLocator pointer
     \<Rightarrow> AllowTupleTypeMismatch" where
  "AllowTupleTypeMismatch_ctor cs lhs rhs locator =
     ContextualMismatch_ctor_kind cs FixKind.AllowTupleTypeMismatch lhs rhs locator False"

type_synonym CollectionElementContextualMismatch = ContextualMismatch

definition CollectionElementContextualMismatch_ctor ::
  "ConstraintSystem \<Rightarrow> Type \<Rightarrow> Type \<Rightarrow> ConstraintLocator pointer
     \<Rightarrow> CollectionElementContextualMismatch" where
  "CollectionElementContextualMismatch_ctor cs srcType dstType locator =
     ContextualMismatch_ctor cs srcType dstType locator"

type_synonym IgnoreContextualType = ContextualMismatch

definition IgnoreContextualType_ctor ::
  "ConstraintSystem \<Rightarrow> Type \<Rightarrow> Type \<Rightarrow> ConstraintLocator pointer \<Rightarrow> IgnoreContextualType" where
  "IgnoreContextualType_ctor cs resultTy specifiedTy locator =
     ContextualMismatch_ctor cs resultTy specifiedTy locator"

type_synonym IgnoreAssignmentDestinationType = ContextualMismatch

definition IgnoreAssignmentDestinationType_ctor ::
  "ConstraintSystem \<Rightarrow> Type \<Rightarrow> Type \<Rightarrow> ConstraintLocator pointer
     \<Rightarrow> IgnoreAssignmentDestinationType" where
  "IgnoreAssignmentDestinationType_ctor cs sourceTy destTy locator =
     ContextualMismatch_ctor cs sourceTy destTy locator"

type_synonym AllowInOutConversion = ContextualMismatch

definition AllowInOutConversion_ctor ::
  "ConstraintSystem \<Rightarrow> Type \<Rightarrow> Type \<Rightarrow> ConstraintLocator pointer \<Rightarrow> AllowInOutConversion" where
  "AllowInOutConversion_ctor cs argType paramType locator =
     ContextualMismatch_ctor cs argType paramType locator"

type_synonym AllowArgumentMismatch = ContextualMismatch

definition AllowArgumentMismatch_ctor_kind ::
  "ConstraintSystem \<Rightarrow> FixKind \<Rightarrow> Type \<Rightarrow> Type \<Rightarrow> ConstraintLocator pointer \<Rightarrow> bool
     \<Rightarrow> AllowArgumentMismatch" where
  "AllowArgumentMismatch_ctor_kind cs kind argType paramType locator warning =
     ContextualMismatch_ctor_kind cs kind argType paramType locator warning"

text \<open>The constructor without a kind delegates to the one above.\<close>

definition AllowArgumentMismatch_ctor ::
  "ConstraintSystem \<Rightarrow> Type \<Rightarrow> Type \<Rightarrow> ConstraintLocator pointer \<Rightarrow> AllowArgumentMismatch" where
  "AllowArgumentMismatch_ctor cs argType paramType locator =
     AllowArgumentMismatch_ctor_kind cs FixKind.AllowArgumentTypeMismatch argType paramType
       locator False"

type_synonym ExpandArrayIntoVarargs = ContextualMismatch

definition ExpandArrayIntoVarargs_ctor ::
  "ConstraintSystem \<Rightarrow> Type \<Rightarrow> Type \<Rightarrow> ConstraintLocator pointer \<Rightarrow> ExpandArrayIntoVarargs" where
  "ExpandArrayIntoVarargs_ctor cs argType paramType locator =
     AllowArgumentMismatch_ctor_kind cs FixKind.ExpandArrayIntoVarargs argType paramType
       locator False"

type_synonym ExplicitlyConstructRawRepresentable = ContextualMismatch

definition ExplicitlyConstructRawRepresentable_ctor ::
  "ConstraintSystem \<Rightarrow> Type \<Rightarrow> Type \<Rightarrow> ConstraintLocator pointer
     \<Rightarrow> ExplicitlyConstructRawRepresentable" where
  "ExplicitlyConstructRawRepresentable_ctor cs argType paramType locator =
     AllowArgumentMismatch_ctor_kind cs FixKind.ExplicitlyConstructRawRepresentable argType
       paramType locator False"

type_synonym UseValueTypeOfRawRepresentative = ContextualMismatch

definition UseValueTypeOfRawRepresentative_ctor ::
  "ConstraintSystem \<Rightarrow> Type \<Rightarrow> Type \<Rightarrow> ConstraintLocator pointer
     \<Rightarrow> UseValueTypeOfRawRepresentative" where
  "UseValueTypeOfRawRepresentative_ctor cs argType paramType locator =
     AllowArgumentMismatch_ctor_kind cs FixKind.UseValueTypeOfRawRepresentative argType
       paramType locator False"

type_synonym CoerceToCheckedCast = ContextualMismatch

definition CoerceToCheckedCast_ctor ::
  "ConstraintSystem \<Rightarrow> Type \<Rightarrow> Type \<Rightarrow> ConstraintLocator pointer \<Rightarrow> CoerceToCheckedCast" where
  "CoerceToCheckedCast_ctor cs fromType toType locator =
     ContextualMismatch_ctor_kind cs FixKind.CoerceToCheckedCast fromType toType locator False"

subsection \<open>Fixes without payload\<close>

type_synonym AutoClosureForwarding = ConstraintFix

definition AutoClosureForwarding_ctor ::
  "ConstraintSystem \<Rightarrow> ConstraintLocator pointer \<Rightarrow> AutoClosureForwarding" where
  "AutoClosureForwarding_ctor cs locator =
     ConstraintFix_ctor cs FixKind.AutoClosureForwarding locator False"

type_synonym InsertExplicitCall = ConstraintFix

definition InsertExplicitCall_ctor ::
  "ConstraintSystem \<Rightarrow> ConstraintLocator pointer \<Rightarrow> InsertExplicitCall" where
  "InsertExplicitCall_ctor cs locator = ConstraintFix_ctor cs FixKind.InsertCall locator False"

type_synonym UseSubscriptOperator = ConstraintFix

definition UseSubscriptOperator_ctor ::
  "ConstraintSystem \<Rightarrow> ConstraintLocator pointer \<Rightarrow> UseSubscriptOperator" where
  "UseSubscriptOperator_ctor cs locator =
     ConstraintFix_ctor cs FixKind.UseSubscriptOperator locator False"

type_synonym AllowInvalidPartialApplication = ConstraintFix

definition AllowInvalidPartialApplication_ctor ::
  "bool \<Rightarrow> ConstraintSystem \<Rightarrow> ConstraintLocator pointer \<Rightarrow> AllowInvalidPartialApplication" where
  "AllowInvalidPartialApplication_ctor isWarning' cs locator =
     ConstraintFix_ctor cs FixKind.AllowInvalidPartialApplication locator isWarning'"

type_synonym AllowAnyObjectKeyPathRoot = ConstraintFix

definition AllowAnyObjectKeyPathRoot_ctor ::
  "ConstraintSystem \<Rightarrow> ConstraintLocator pointer \<Rightarrow> AllowAnyObjectKeyPathRoot" where
  "AllowAnyObjectKeyPathRoot_ctor cs locator =
     ConstraintFix_ctor cs FixKind.AllowAnyObjectKeyPathRoot locator False"

type_synonym RemoveReturn = ConstraintFix

definition RemoveReturn_ctor ::
  "ConstraintSystem \<Rightarrow> ConstraintLocator pointer \<Rightarrow> RemoveReturn" where
  "RemoveReturn_ctor cs locator = ConstraintFix_ctor cs FixKind.RemoveReturn locator False"

subsection \<open>Fixes with a fixed payload\<close>

record RemoveUnwrap = ConstraintFix +
  BaseType :: Type

definition RemoveUnwrap_ctor ::
  "ConstraintSystem \<Rightarrow> Type \<Rightarrow> ConstraintLocator pointer \<Rightarrow> RemoveUnwrap" where
  "RemoveUnwrap_ctor cs baseType locator =
     ConstraintFix.extend (ConstraintFix_ctor cs FixKind.RemoveUnwrap locator False)
       (RemoveUnwrap.fields baseType)"

record UsePropertyWrapper = ConstraintFix +
  Wrapped :: "address pointer"
  UsingStorageWrapper :: bool
  Base :: Type
  Wrapper :: Type

definition UsePropertyWrapper_ctor ::
  "ConstraintSystem \<Rightarrow> address pointer \<Rightarrow> bool \<Rightarrow> Type \<Rightarrow> Type \<Rightarrow> ConstraintLocator pointer
     \<Rightarrow> UsePropertyWrapper" where
  "UsePropertyWrapper_ctor cs wrapped usingStorageWrapper base wrapper locator =
     ConstraintFix.extend (ConstraintFix_ctor cs FixKind.UsePropertyWrapper locator False)
       (UsePropertyWrapper.fields wrapped usingStorageWrapper base wrapper)"

record UseWrappedValue = ConstraintFix +
  PropertyWrapper :: "address pointer"
  Base :: Type
  Wrapper :: Type

definition UseWrappedValue_ctor ::
  "ConstraintSystem \<Rightarrow> address pointer \<Rightarrow> Type \<Rightarrow> Type \<Rightarrow> ConstraintLocator pointer
     \<Rightarrow> UseWrappedValue" where
  "UseWrappedValue_ctor cs propertyWrapper base wrapper locator =
     ConstraintFix.extend (ConstraintFix_ctor cs FixKind.UseWrappedValue locator False)
       (UseWrappedValue.fields propertyWrapper base wrapper)"

text \<open>
  \<^verbatim>\<open>usingStorageWrapper()\<close> reads the name of the declaration the stored pointer refers
  to, in the declaration store as it is when the question is asked.
\<close>

definition usingStorageWrapper :: "DeclStore \<Rightarrow> UseWrappedValue \<Rightarrow> error + bool" where
  "usingStorageWrapper decls fix =
     (case PropertyWrapper fix of
        None \<Rightarrow> Inl NullDereference
      | Some a \<Rightarrow>
          (case map_of decls a of
             None \<Rightarrow> Inl NullDereference
           | Some d \<Rightarrow> Inr (\<not> startswith (VarDecl_name d) ''_'')))"

record DefineMemberBasedOnUse = ConstraintFix +
  BaseType :: Type
  Name :: DeclName

definition DefineMemberBasedOnUse_ctor ::
  "ConstraintSystem \<Rightarrow> Type \<Rightarrow> DeclName \<Rightarrow> ConstraintLocator pointer
     \<Rightarrow> DefineMemberBasedOnUse" where
  "DefineMemberBasedOnUse_ctor cs baseType member locator =
     ConstraintFix.extend (ConstraintFix_ctor cs FixKind.DefineMemberBasedOnUse locator False)
       (DefineMemberBasedOnUse.fields baseType member)"

subsection \<open>The invalid-member-reference family\<close>

record AllowInvalidMemberRef = ConstraintFix +
  BaseType :: Type
  Member :: "address pointer"
  Name :: DeclName

definition AllowInvalidMemberRef_ctor ::
  "ConstraintSystem \<Rightarrow> FixKind \<Rightarrow> Type \<Rightarrow> address pointer \<Rightarrow> DeclName
     \<Rightarrow> ConstraintLocator pointer \<Rightarrow> AllowInvalidMemberRef" where
  "AllowInvalidMemberRef_ctor cs kind baseType member name locator =
     ConstraintFix.extend (ConstraintFix_ctor cs kind locator False)
       (AllowInvalidMemberRef.fields baseType member name)"

definition getBaseType :: "'a AllowInvalidMemberRef_scheme \<Rightarrow> Type" where
  "getBaseType fix = AllowInvalidMemberRef.BaseType fix"

definition getMember :: "'a AllowInvalidMemberRef_scheme \<Rightarrow> address pointer" where
  "getMember fix = AllowInvalidMemberRef.Member fix"

definition getMemberName :: "'a AllowInvalidMemberRef_scheme \<Rightarrow> DeclName" where
  "getMemberName fix = AllowInvalidMemberRef.Name fix"

type_synonym AllowMemberRefOnExistential = AllowInvalidMemberRef

definition AllowMemberRefOnExistential_ctor ::
  "ConstraintSystem \<Rightarrow> Type \<Rightarrow> DeclName \<Rightarrow> address pointer \<Rightarrow> ConstraintLocator pointer
     \<Rightarrow> AllowMemberRefOnExistential" where
  "AllowMemberRefOnExistential_ctor cs baseType memberName member locator =
     AllowInvalidMemberRef_ctor cs FixKind.AllowMemberRefOnExistential baseType member
       memberName locator"

type_synonym AllowTypeOrInstanceMember = AllowInvalidMemberRef

definition AllowTypeOrInstanceMember_ctor ::
  "ConstraintSystem \<Rightarrow> Type \<Rightarrow> address pointer \<Rightarrow> DeclName \<Rightarrow> ConstraintLocator pointer
     \<Rightarrow> error + AllowTypeOrInstanceMember" where
  "AllowTypeOrInstanceMember_ctor cs baseType member name locator =
     (let fix = AllowInvalidMemberRef_ctor cs FixKind.AllowTypeOrInstanceMember baseType
                  member name locator
      in if member = None then Inl AssertionFailure else Inr fix)"

type_synonym AllowMutatingMemberOnRValueBase = AllowInvalidMemberRef

definition AllowMutatingMemberOnRValueBase_ctor ::
  "ConstraintSystem \<Rightarrow> Type \<Rightarrow> address pointer \<Rightarrow> DeclName \<Rightarrow> ConstraintLocator pointer
     \<Rightarrow> AllowMutatingMemberOnRValueBase" where
  "AllowMutatingMemberOnRValueBase_ctor cs baseType member name locator =
     AllowInvalidMemberRef_ctor cs FixKind.AllowMutatingMemberOnRValueBase baseType member
       name locator"

type_synonym AllowInaccessibleMember = AllowInvalidMemberRef

definition AllowInaccessibleMember_ctor ::
  "ConstraintSystem \<Rightarrow> Type \<Rightarrow> address pointer \<Rightarrow> DeclName \<Rightarrow> ConstraintLocator pointer
     \<Rightarrow> AllowInaccessibleMember" where
  "AllowInaccessibleMember_ctor cs baseType member name locator =
     AllowInvalidMemberRef_ctor cs FixKind.AllowInaccessibleMember baseType member name
       locator"

subsection \<open>AllowInvalidInitRef\<close>

datatype InitRefKind = DynamicOnMetatype | ProtocolMetatype | NonConstMetatype

record AllowInvalidInitRef = ConstraintFix +
  RefKind :: InitRefKind
  BaseType :: Type
  Init :: "address pointer"
  IsStaticallyDerived :: bool
  BaseRange :: SourceRange

text \<open>
  The member that holds the \<^verbatim>\<open>RefKind\<close> is called \<^verbatim>\<open>Kind\<close> in the source and hides the
  private \<^verbatim>\<open>Kind\<close> of the base class; here it is the field \<open>RefKind\<close>.
\<close>

definition AllowInvalidInitRef_ctor ::
  "ConstraintSystem \<Rightarrow> InitRefKind \<Rightarrow> Type \<Rightarrow> address pointer \<Rightarrow> bool \<Rightarrow> SourceRange
     \<Rightarrow> ConstraintLocator pointer \<Rightarrow> AllowInvalidInitRef" where
  "AllowInvalidInitRef_ctor cs kind baseTy init isStaticallyDerived baseRange locator =
     ConstraintFix.extend (ConstraintFix_ctor cs FixKind.AllowInvalidInitRef locator False)
       (AllowInvalidInitRef.fields kind baseTy init isStaticallyDerived baseRange)"

subsection \<open>The argument-list family\<close>

record AllowClosureParamDestructuring = ConstraintFix +
  ContextualType :: "FunctionType pointer"

definition AllowClosureParamDestructuring_ctor ::
  "ConstraintSystem \<Rightarrow> FunctionType pointer \<Rightarrow> ConstraintLocator pointer
     \<Rightarrow> AllowClosureParamDestructuring" where
  "AllowClosureParamDestructuring_ctor cs contextualType locator =
     ConstraintFix.extend
       (ConstraintFix_ctor cs FixKind.AllowClosureParameterDestructuring locator False)
       (AllowClosureParamDestructuring.fields contextualType)"

record AddMissingArguments = ConstraintFix +
  NumSynthesized :: "32 word"
  Synthesized_storage :: "Param option list"

definition AddMissingArguments_ctor ::
  "Param option list \<Rightarrow> ConstraintSystem \<Rightarrow> Param list \<Rightarrow> ConstraintLocator pointer
     \<Rightarrow> error + AddMissingArguments" where
  "AddMissingArguments_ctor mem cs synthesizedArgs locator =
     (case uninitialized_copy synthesizedArgs 0 mem of
        Inl e \<Rightarrow> Inl e
      | Inr mem' \<Rightarrow>
          Inr (ConstraintFix.extend
                 (ConstraintFix_ctor cs FixKind.AddMissingArguments locator False)
                 (AddMissingArguments.fields (of_nat (length synthesizedArgs)) mem')))"

definition getSynthesizedArguments :: "AddMissingArguments \<Rightarrow> Param option list" where
  "getSynthesizedArguments fix =
     trailing_view (NumSynthesized fix) (Synthesized_storage fix)"

type_synonym ParamBinding = "32 word list"

record MoveOutOfOrderArgument = ConstraintFix +
  ArgIdx :: "32 word"
  PrevArgIdx :: "32 word"
  Bindings :: "ParamBinding list"

definition MoveOutOfOrderArgument_ctor ::
  "ConstraintSystem \<Rightarrow> 32 word \<Rightarrow> 32 word \<Rightarrow> ParamBinding list \<Rightarrow> ConstraintLocator pointer
     \<Rightarrow> MoveOutOfOrderArgument" where
  "MoveOutOfOrderArgument_ctor cs argIdx prevArgIdx bindings locator =
     ConstraintFix.extend (ConstraintFix_ctor cs FixKind.MoveOutOfOrderArgument locator False)
       (MoveOutOfOrderArgument.fields argIdx prevArgIdx bindings)"

record AllowTupleSplatForSingleParameter = ConstraintFix +
  ParamType :: Type

definition AllowTupleSplatForSingleParameter_ctor ::
  "ConstraintSystem \<Rightarrow> Type \<Rightarrow> ConstraintLocator pointer
     \<Rightarrow> AllowTupleSplatForSingleParameter" where
  "AllowTupleSplatForSingleParameter_ctor cs paramTy locator =
     ConstraintFix.extend
       (ConstraintFix_ctor cs FixKind.AllowTupleSplatForSingleParameter locator False)
       (AllowTupleSplatForSingleParameter.fields paramTy)"

subsection \<open>The key-path family\<close>

record TreatKeyPathSubscriptIndexAsHashable = ConstraintFix +
  NonConformingType :: Type

definition TreatKeyPathSubscriptIndexAsHashable_ctor ::
  "ConstraintSystem \<Rightarrow> Type \<Rightarrow> ConstraintLocator pointer
     \<Rightarrow> TreatKeyPathSubscriptIndexAsHashable" where
  "TreatKeyPathSubscriptIndexAsHashable_ctor cs type locator =
     ConstraintFix.extend
       (ConstraintFix_ctor cs FixKind.TreatKeyPathSubscriptIndexAsHashable locator False)
       (TreatKeyPathSubscriptIndexAsHashable.fields type)"

datatype KeyPathRefKind = StaticMember | MutatingGetter | Method

record AllowInvalidRefInKeyPath = ConstraintFix +
  RefKind :: KeyPathRefKind
  Member :: "address pointer"

definition AllowInvalidRefInKeyPath_ctor ::
  "ConstraintSystem \<Rightarrow> KeyPathRefKind \<Rightarrow> address pointer \<Rightarrow> ConstraintLocator pointer
     \<Rightarrow> AllowInvalidRefInKeyPath" where
  "AllowInvalidRefInKeyPath_ctor cs kind member locator =
     ConstraintFix.extend
       (ConstraintFix_ctor cs FixKind.AllowInvalidRefInKeyPath locator False)
       (AllowInvalidRefInKeyPath.fields kind member)"

subsection \<open>ExplicitlySpecifyGenericArguments\<close>

record ExplicitlySpecifyGenericArguments = ConstraintFix +
  NumMissingParams :: "32 word"
  Params_storage :: "GenericTypeParamType pointer option list"

text \<open>The assertion comes before the copy.\<close>

definition ExplicitlySpecifyGenericArguments_ctor ::
  "GenericTypeParamType pointer option list \<Rightarrow> ConstraintSystem
     \<Rightarrow> GenericTypeParamType pointer list \<Rightarrow> ConstraintLocator pointer
     \<Rightarrow> error + ExplicitlySpecifyGenericArguments" where
  "ExplicitlySpecifyGenericArguments_ctor mem cs params locator =
     (if params = [] then Inl AssertionFailure
      else (case uninitialized_copy params 0 mem of
              Inl e \<Rightarrow> Inl e
            | Inr mem' \<Rightarrow>
                Inr (ConstraintFix.extend
                       (ConstraintFix_ctor cs FixKind.ExplicitlySpecifyGenericArguments
                          locator False)
                       (ExplicitlySpecifyGenericArguments.fields
                          (of_nat (length params)) mem'))))"

definition getParameters ::
  "ExplicitlySpecifyGenericArguments \<Rightarrow> GenericTypeParamType pointer option list" where
  "getParameters fix = trailing_view (NumMissingParams fix) (Params_storage fix)"

subsection \<open>SkipUnhandledConstructInFunctionBuilder\<close>

text \<open>\<^verbatim>\<open>llvm::PointerUnion<Stmt *, Decl *>\<close>.\<close>

datatype UnhandledNode = Stmt "address pointer" | Decl "address pointer"

record SkipUnhandledConstructInFunctionBuilder = ConstraintFix +
  unhandled :: UnhandledNode
  builder :: "address pointer"

definition SkipUnhandledConstructInFunctionBuilder_ctor ::
  "ConstraintSystem \<Rightarrow> UnhandledNode \<Rightarrow> address pointer \<Rightarrow> ConstraintLocator pointer
     \<Rightarrow> SkipUnhandledConstructInFunctionBuilder" where
  "SkipUnhandledConstructInFunctionBuilder_ctor cs unhandled' builder' locator =
     ConstraintFix.extend
       (ConstraintFix_ctor cs FixKind.SkipUnhandledConstructInFunctionBuilder locator False)
       (SkipUnhandledConstructInFunctionBuilder.fields unhandled' builder')"

section \<open>Factories\<close>

text \<open>
  The header declares the static creation functions; their bodies are in
  \<^verbatim>\<open>lib/Sema/CSFix.cpp\<close>, which is not under \<^verbatim>\<open>src/\<close>. The ones the properties below
  speak about are written after section 4.1 of the spec: a factory takes the session,
  the payload and a locator, and returns a newly allocated instance built by the
  private constructor; a fallible one returns an absent result when its repair does
  not apply.
\<close>

text \<open>Modelled from the spec: \<^verbatim>\<open>UnwrapOptionalBase::create\<close>, which yields the kind
  \<^verbatim>\<open>UnwrapOptionalBase\<close>.\<close>

definition UnwrapOptionalBase_create ::
  "ConstraintSystem \<Rightarrow> DeclName \<Rightarrow> ConstraintLocator pointer \<Rightarrow> error + UnwrapOptionalBase" where
  "UnwrapOptionalBase_create cs member locator =
     UnwrapOptionalBase_ctor cs FixKind.UnwrapOptionalBase member locator"

text \<open>Modelled from the spec: \<^verbatim>\<open>UnwrapOptionalBase::createWithOptionalResult\<close>, which
  yields the kind \<^verbatim>\<open>UnwrapOptionalBaseWithOptionalResult\<close>.\<close>

definition UnwrapOptionalBase_createWithOptionalResult ::
  "ConstraintSystem \<Rightarrow> DeclName \<Rightarrow> ConstraintLocator pointer \<Rightarrow> error + UnwrapOptionalBase" where
  "UnwrapOptionalBase_createWithOptionalResult cs member locator =
     UnwrapOptionalBase_ctor cs FixKind.UnwrapOptionalBaseWithOptionalResult member locator"

text \<open>Modelled from the spec: \<^verbatim>\<open>TreatRValueAsLValue::create\<close>.\<close>

definition TreatRValueAsLValue_create ::
  "ConstraintSystem \<Rightarrow> ConstraintLocator pointer \<Rightarrow> TreatRValueAsLValue" where
  "TreatRValueAsLValue_create cs locator = TreatRValueAsLValue_ctor cs locator"

text \<open>Modelled from the spec: \<^verbatim>\<open>MarkExplicitlyEscaping::create\<close>. Its declaration, in
  the header, gives \<^verbatim>\<open>convertingTo\<close> the default \<^verbatim>\<open>Type()\<close>; the value it ends up with
  is handed to the constructor.\<close>

definition MarkExplicitlyEscaping_create ::
  "ConstraintSystem \<Rightarrow> ConstraintLocator pointer \<Rightarrow> Type option \<Rightarrow> MarkExplicitlyEscaping" where
  "MarkExplicitlyEscaping_create cs locator convertingTo =
     MarkExplicitlyEscaping_ctor cs locator
       (Some (case convertingTo of None \<Rightarrow> Type_default | Some t \<Rightarrow> t))"

text \<open>Modelled from the spec: the allocation made by the factory of a fix with a
  trailing payload (section 4.2): one block whose trailing region has exactly as many
  cells as the supplied sequence has elements, all uninitialised.\<close>

definition allocate_trailing :: "nat \<Rightarrow> 'a option list" where
  "allocate_trailing n = replicate n None"

text \<open>Modelled from the spec: \<^verbatim>\<open>RelabelArguments::create\<close>.\<close>

definition RelabelArguments_create ::
  "ConstraintSystem \<Rightarrow> Identifier list \<Rightarrow> ConstraintLocator pointer
     \<Rightarrow> error + RelabelArguments" where
  "RelabelArguments_create cs correctLabels locator =
     RelabelArguments_ctor (allocate_trailing (length correctLabels)) cs correctLabels locator"

text \<open>Modelled from the spec: \<^verbatim>\<open>GenericArgumentsMismatch::create\<close>.\<close>

definition GenericArgumentsMismatch_create ::
  "ConstraintSystem \<Rightarrow> Type \<Rightarrow> Type \<Rightarrow> 32 word list \<Rightarrow> ConstraintLocator pointer
     \<Rightarrow> error + GenericArgumentsMismatch" where
  "GenericArgumentsMismatch_create cs actual required mismatches locator =
     GenericArgumentsMismatch_ctor (allocate_trailing (length mismatches)) cs actual required
       mismatches locator"

text \<open>Modelled from the spec: \<^verbatim>\<open>AddMissingArguments::create\<close>.\<close>

definition AddMissingArguments_create ::
  "ConstraintSystem \<Rightarrow> Param list \<Rightarrow> ConstraintLocator pointer \<Rightarrow> error + AddMissingArguments" where
  "AddMissingArguments_create cs synthesizedArgs locator =
     AddMissingArguments_ctor (allocate_trailing (length synthesizedArgs)) cs synthesizedArgs
       locator"

text \<open>Modelled from the spec: \<^verbatim>\<open>ExplicitlySpecifyGenericArguments::create\<close>.\<close>

definition ExplicitlySpecifyGenericArguments_create ::
  "ConstraintSystem \<Rightarrow> GenericTypeParamType pointer list \<Rightarrow> ConstraintLocator pointer
     \<Rightarrow> error + ExplicitlySpecifyGenericArguments" where
  "ExplicitlySpecifyGenericArguments_create cs params locator =
     ExplicitlySpecifyGenericArguments_ctor (allocate_trailing (length params)) cs params
       locator"





text \<open>Modelled from the spec: \<^verbatim>\<open>UsePropertyWrapper::create\<close>.\<close>

definition UsePropertyWrapper_create ::
  "ConstraintSystem \<Rightarrow> address pointer \<Rightarrow> bool \<Rightarrow> Type \<Rightarrow> Type \<Rightarrow> ConstraintLocator pointer
     \<Rightarrow> UsePropertyWrapper" where
  "UsePropertyWrapper_create cs wrapped usingStorageWrapper' base wrapper locator =
     UsePropertyWrapper_ctor cs wrapped usingStorageWrapper' base wrapper locator"

text \<open>Modelled from the spec: \<^verbatim>\<open>UseWrappedValue::create\<close>.\<close>

definition UseWrappedValue_create ::
  "ConstraintSystem \<Rightarrow> address pointer \<Rightarrow> Type \<Rightarrow> Type \<Rightarrow> ConstraintLocator pointer
     \<Rightarrow> UseWrappedValue" where
  "UseWrappedValue_create cs propertyWrapper base wrapper locator =
     UseWrappedValue_ctor cs propertyWrapper base wrapper locator"

section \<open>The tuple-splat probe\<close>

text \<open>
  The header declares \<^verbatim>\<open>AllowTupleSplatForSingleParameter::attempt\<close> with an in-out
  argument list, the parameter list and an in-out binding table, and says that it
  returns \<^verbatim>\<open>true\<close> when the fix is not applicable. Its body is in
  \<^verbatim>\<open>lib/Sema/CSFix.cpp\<close>, which is not under \<^verbatim>\<open>src/\<close>; it is written here after
  section 4.5 of the spec.
\<close>

text \<open>Modelled from the spec: a tuple type is compatible in arity and shape with the
  arguments when it has one element per argument.\<close>

definition tupleCompatible :: "Param list \<Rightarrow> (Identifier \<times> Type) list \<Rightarrow> bool" where
  "tupleCompatible args elts = (length elts = length args)"

text \<open>Modelled from the spec: the fold of the arguments, a single argument whose type
  is the tuple formed of all of them, under the label of the parameter so that it
  binds to it.\<close>

definition foldArguments :: "Param \<Rightarrow> Param list \<Rightarrow> Param" where
  "foldArguments param args =
     \<lparr>Ty = Some (TupleType (map (\<lambda>a. (Label a, Ty a)) args)),
      Label = Label param, Flags = 0\<rparr>"

text \<open>Modelled from the spec: the probe applies when exactly one parameter remains and
  its type is a compatible tuple. It then replaces the arguments by their fold and the
  binding table by the one that binds the parameter to argument 0, and returns
  \<^verbatim>\<open>false\<close>; otherwise it returns \<^verbatim>\<open>true\<close> and both inputs are left as they are. The
  result is the returned flag with the argument list and the binding table after the
  call.\<close>

definition AllowTupleSplatForSingleParameter_attempt ::
  "ConstraintSystem \<Rightarrow> Param list \<Rightarrow> Param list \<Rightarrow> ParamBinding list
     \<Rightarrow> ConstraintLocator pointer \<Rightarrow> bool \<times> Param list \<times> ParamBinding list" where
  "AllowTupleSplatForSingleParameter_attempt cs args params bindings locator =
     (case params of
        [param] \<Rightarrow>
          (case Ty param of
             Some (TupleType elts) \<Rightarrow>
               if tupleCompatible args elts
               then (False, [foldArguments param args], [[0]])
               else (True, args, bindings)
           | _ \<Rightarrow> (True, args, bindings))
      | _ \<Rightarrow> (True, args, bindings))"

section \<open>Which class constructs which kind\<close>



section \<open>Basic facts about the constructors\<close>

lemma getKind_base [simp]:
  "getKind (ConstraintFix_ctor cs k l w) = k"
  "getKind (ConstraintFix.extend f x) = getKind f"
  "getKind (ContextualMismatch.extend g y) = getKind g"
  by (simp_all add: getKind_def ConstraintFix_ctor_def ConstraintFix.defs ContextualMismatch.defs)

lemma getLocator_base [simp]:
  "getLocator (ConstraintFix_ctor cs k l w) = l"
  "getLocator (ConstraintFix.extend f x) = getLocator f"
  "getLocator (ContextualMismatch.extend g y) = getLocator g"
  by (simp_all add: getLocator_def ConstraintFix_ctor_def ConstraintFix.defs ContextualMismatch.defs)

lemma uninitialized_copy_fits:
  "d + length xs \<le> length buf \<Longrightarrow>
   uninitialized_copy xs d buf = Inr (take d buf @ map Some xs @ drop (d + length xs) buf)"
proof (induction xs arbitrary: d buf)
  case Nil
  then show ?case by simp
next
  case (Cons x xs)
  from Cons.prems have d: "d < length buf" by simp
  have len: "Suc d + length xs \<le> length (buf[d := Some x])" using Cons.prems by simp
  have t: "take (Suc d) (buf[d := Some x]) = take d buf @ [Some x]"
    using d by (simp add: take_Suc_conv_app_nth)
  show ?case
    using d Cons.IH [OF len] t by simp
qed

lemma uninitialized_copy_overrun:
  "xs \<noteq> [] \<Longrightarrow> length buf < d + length xs \<Longrightarrow> uninitialized_copy xs d buf = Inl BufferOverrun"
proof (induction xs arbitrary: d buf)
  case Nil
  then show ?case by simp
next
  case (Cons x xs)
  show ?case
  proof (cases "d < length buf")
    case False
    then show ?thesis by simp
  next
    case True
    with Cons.prems have "xs \<noteq> []" by auto
    moreover have "length (buf[d := Some x]) < Suc d + length xs" using Cons.prems by simp
    ultimately show ?thesis using True Cons.IH by simp
  qed
qed

lemma uninitialized_copy_allocated:
  "uninitialized_copy xs 0 (allocate_trailing (length xs)) = Inr (map Some xs)"
  using uninitialized_copy_fits [of 0 xs "allocate_trailing (length xs)"]
  by (simp add: allocate_trailing_def)

lemma trailing_view_copy:
  "trailing_view (of_nat (length xs)) (map Some xs) = map Some (take (length xs mod 2 ^ 32) xs)"
  by (simp add: trailing_view_def unat_of_nat take_map)

lemma trailing_view_short:
  "length xs < 2 ^ 32 \<Longrightarrow> trailing_view (of_nat (length xs)) (map Some xs) = map Some xs"
  by (simp add: trailing_view_copy)

lemma RelabelArguments_create_eq:
  "RelabelArguments_create cs xs loc =
     Inr (ConstraintFix.extend (ConstraintFix_ctor cs FixKind.RelabelArguments loc False)
            (RelabelArguments.fields (of_nat (length xs)) (map Some xs)))"
  by (simp add: RelabelArguments_create_def RelabelArguments_ctor_def
      uninitialized_copy_allocated)

lemma AddMissingArguments_create_eq:
  "AddMissingArguments_create cs xs loc =
     Inr (ConstraintFix.extend (ConstraintFix_ctor cs FixKind.AddMissingArguments loc False)
            (AddMissingArguments.fields (of_nat (length xs)) (map Some xs)))"
  by (simp add: AddMissingArguments_create_def AddMissingArguments_ctor_def
      uninitialized_copy_allocated)

lemma ExplicitlySpecifyGenericArguments_create_eq:
  "xs \<noteq> [] \<Longrightarrow>
   ExplicitlySpecifyGenericArguments_create cs xs loc =
     Inr (ConstraintFix.extend
            (ConstraintFix_ctor cs FixKind.ExplicitlySpecifyGenericArguments loc False)
            (ExplicitlySpecifyGenericArguments.fields (of_nat (length xs)) (map Some xs)))"
  by (simp add: ExplicitlySpecifyGenericArguments_create_def
      ExplicitlySpecifyGenericArguments_ctor_def uninitialized_copy_allocated)

lemma ExplicitlySpecifyGenericArguments_create_empty:
  "ExplicitlySpecifyGenericArguments_create cs [] loc = Inl AssertionFailure"
  by (simp add: ExplicitlySpecifyGenericArguments_create_def
      ExplicitlySpecifyGenericArguments_ctor_def)

lemma GenericArgumentsMismatch_create_eq:
  "GenericArgumentsMismatch_create cs (Some (BoundGenericType d as))
       (Some (BoundGenericType e bs)) xs loc =
     Inr (ContextualMismatch.extend
            (ContextualMismatch_ctor_kind cs FixKind.GenericArgumentsMismatch
               (Some (BoundGenericType d as)) (Some (BoundGenericType e bs)) loc False)
            (GenericArgumentsMismatch.fields (of_nat (length xs)) (map Some xs)))"
  by (simp add: GenericArgumentsMismatch_create_def GenericArgumentsMismatch_ctor_def
      is_BoundGenericType_def uninitialized_copy_allocated)

lemma GenericArgumentsMismatch_create_Inr:
  assumes "GenericArgumentsMismatch_create cs actual required xs loc = Inr gm"
  shows "gm = ContextualMismatch.extend
            (ContextualMismatch_ctor_kind cs FixKind.GenericArgumentsMismatch
               actual required loc False)
            (GenericArgumentsMismatch.fields (of_nat (length xs)) (map Some xs))
         \<and> is_BoundGenericType actual = Inr True \<and> is_BoundGenericType required = Inr True"
  using assms
  by (auto simp add: GenericArgumentsMismatch_create_def GenericArgumentsMismatch_ctor_def
      uninitialized_copy_allocated split: sum.splits if_splits)

lemma getLabels_fields:
  "getLabels (ConstraintFix.extend f (RelabelArguments.fields n buf)) = trailing_view n buf"
  by (simp add: getLabels_def ConstraintFix.defs RelabelArguments.defs)

lemma getSynthesizedArguments_fields:
  "getSynthesizedArguments (ConstraintFix.extend f (AddMissingArguments.fields n buf)) =
     trailing_view n buf"
  by (simp add: getSynthesizedArguments_def ConstraintFix.defs AddMissingArguments.defs)

lemma getParameters_fields:
  "getParameters (ConstraintFix.extend f (ExplicitlySpecifyGenericArguments.fields n buf)) =
     trailing_view n buf"
  by (simp add: getParameters_def ConstraintFix.defs ExplicitlySpecifyGenericArguments.defs)

lemma getMismatches_fields:
  "getMismatches (ContextualMismatch.extend f (GenericArgumentsMismatch.fields n buf)) =
     trailing_view n buf"
  by (simp add: getMismatches_def ContextualMismatch.defs GenericArgumentsMismatch.defs)

lemmas ctor_defs =
  ForceOptional_ctor_def UnwrapOptionalBase_ctor_def
  TreatRValueAsLValue_ctor_def MarkExplicitlyEscaping_ctor_def RelabelArguments_ctor_def
  MissingConformance_ctor_def SkipSameTypeRequirement_ctor_def
  SkipSuperclassRequirement_ctor_def
  DropThrowsAttribute_ctor_def ForceDowncast_ctor_def
  AddAddressOf_ctor_def RemoveAddressOf_ctor_def GenericArgumentsMismatch_ctor_def
  KeyPathContextualMismatch_ctor_def AllowAutoClosurePointerConversion_ctor_def
  AllowTupleTypeMismatch_ctor_def CollectionElementContextualMismatch_ctor_def
  IgnoreContextualType_ctor_def IgnoreAssignmentDestinationType_ctor_def
  AllowInOutConversion_ctor_def AllowArgumentMismatch_ctor_kind_def
  AllowArgumentMismatch_ctor_def ExpandArrayIntoVarargs_ctor_def
  ExplicitlyConstructRawRepresentable_ctor_def UseValueTypeOfRawRepresentative_ctor_def
  CoerceToCheckedCast_ctor_def AutoClosureForwarding_ctor_def InsertExplicitCall_ctor_def
  UseSubscriptOperator_ctor_def AllowInvalidPartialApplication_ctor_def
  AllowAnyObjectKeyPathRoot_ctor_def RemoveReturn_ctor_def RemoveUnwrap_ctor_def
  UsePropertyWrapper_ctor_def UseWrappedValue_ctor_def DefineMemberBasedOnUse_ctor_def
  AllowMemberRefOnExistential_ctor_def
  AllowTypeOrInstanceMember_ctor_def AllowMutatingMemberOnRValueBase_ctor_def
  AllowInaccessibleMember_ctor_def AllowInvalidInitRef_ctor_def
  AllowClosureParamDestructuring_ctor_def AddMissingArguments_ctor_def
  MoveOutOfOrderArgument_ctor_def AllowTupleSplatForSingleParameter_ctor_def
  TreatKeyPathSubscriptIndexAsHashable_ctor_def AllowInvalidRefInKeyPath_ctor_def
  ExplicitlySpecifyGenericArguments_ctor_def
  SkipUnhandledConstructInFunctionBuilder_ctor_def

lemma getKind_CM [simp]:
  "getKind (ContextualMismatch_ctor cs lhs rhs l) = FixKind.ContextualMismatch"
  "getKind (ContextualMismatch_ctor_kind cs k lhs rhs l w) = k"
  "getKind (AllowInvalidMemberRef_ctor cs k b m n l) = k"
  by (simp_all add: ContextualMismatch_ctor_def ContextualMismatch_ctor_kind_def
      AllowInvalidMemberRef_ctor_def)

lemma getLocator_CM [simp]:
  "getLocator (ContextualMismatch_ctor cs lhs rhs l) = l"
  "getLocator (ContextualMismatch_ctor_kind cs k lhs rhs l w) = l"
  "getLocator (AllowInvalidMemberRef_ctor cs k b m n l) = l"
  by (simp_all add: ContextualMismatch_ctor_def ContextualMismatch_ctor_kind_def
      AllowInvalidMemberRef_ctor_def)







lemma getFromType_base [simp]:
  "getFromType (ContextualMismatch_ctor cs lhs rhs l) = lhs"
  "getFromType (ContextualMismatch_ctor_kind cs k lhs rhs l w) = lhs"
  "getFromType (ContextualMismatch.extend g y) = getFromType g"
  by (simp_all add: getFromType_def ContextualMismatch_ctor_def ContextualMismatch_ctor_kind_def
      ConstraintFix.defs ContextualMismatch.defs)

lemma getToType_base [simp]:
  "getToType (ContextualMismatch_ctor cs lhs rhs l) = rhs"
  "getToType (ContextualMismatch_ctor_kind cs k lhs rhs l w) = rhs"
  "getToType (ContextualMismatch.extend g y) = getToType g"
  by (simp_all add: getToType_def ContextualMismatch_ctor_def ContextualMismatch_ctor_kind_def
      ConstraintFix.defs ContextualMismatch.defs)

lemma uninitialized_copy_no_assertion:
  "uninitialized_copy xs d buf \<noteq> Inl AssertionFailure"
  by (induction xs arbitrary: d buf) auto

section \<open>Trailing payloads\<close>

text \<open>
  C3 (as amended). For each of the four classes with a trailing payload
  (\<^verbatim>\<open>RelabelArguments\<close>, \<^verbatim>\<open>AddMissingArguments\<close>, \<^verbatim>\<open>ExplicitlySpecifyGenericArguments\<close>,
  \<^verbatim>\<open>GenericArgumentsMismatch\<close>) the factory returns an instance for every sequence that
  passes the constructor's assertions, and for a sequence of fewer than \<open>2 ^ 32\<close>
  elements the view exposed afterwards (\<^verbatim>\<open>getLabels\<close>, \<^verbatim>\<open>getSynthesizedArguments\<close>,
  \<^verbatim>\<open>getParameters\<close>, \<^verbatim>\<open>getMismatches\<close>) holds exactly the supplied elements, in the
  supplied order. The accessors return values and nothing in the header writes to
  the count or to the trailing cells after the constructor has run.
\<close>

theorem trailing_view_is_supplied_sequence:
  "(\<exists>ra. RelabelArguments_create cs labels locator = Inr ra) \<and>
   (length labels < 2 ^ 32 \<and> RelabelArguments_create cs labels locator = Inr ra
      \<longrightarrow> getLabels ra = map Some labels) \<and>
   (\<exists>am. AddMissingArguments_create cs synthesizedArgs locator = Inr am) \<and>
   (length synthesizedArgs < 2 ^ 32 \<and>
    AddMissingArguments_create cs synthesizedArgs locator = Inr am
      \<longrightarrow> getSynthesizedArguments am = map Some synthesizedArgs) \<and>
   (params \<noteq> [] \<longrightarrow>
      (\<exists>eg. ExplicitlySpecifyGenericArguments_create cs params locator = Inr eg)) \<and>
   (length params < 2 ^ 32 \<and>
    ExplicitlySpecifyGenericArguments_create cs params locator = Inr eg
      \<longrightarrow> getParameters eg = map Some params) \<and>
   (is_BoundGenericType actual = Inr True \<and> is_BoundGenericType required = Inr True
      \<longrightarrow> (\<exists>gm. GenericArgumentsMismatch_create cs actual required mismatches locator
                  = Inr gm)) \<and>
   (length mismatches < 2 ^ 32 \<and>
    GenericArgumentsMismatch_create cs actual required mismatches locator = Inr gm
      \<longrightarrow> getMismatches gm = map Some mismatches)"
proof -
  have r: "length labels < 2 ^ 32 \<and> RelabelArguments_create cs labels locator = Inr ra
      \<longrightarrow> getLabels ra = map Some labels"
    by (auto simp add: RelabelArguments_create_eq getLabels_fields trailing_view_short)
  have a: "length synthesizedArgs < 2 ^ 32 \<and>
    AddMissingArguments_create cs synthesizedArgs locator = Inr am
      \<longrightarrow> getSynthesizedArguments am = map Some synthesizedArgs"
    by (auto simp add: AddMissingArguments_create_eq getSynthesizedArguments_fields
        trailing_view_short)
  have e: "length params < 2 ^ 32 \<and>
    ExplicitlySpecifyGenericArguments_create cs params locator = Inr eg
      \<longrightarrow> getParameters eg = map Some params"
  proof (cases "params = []")
    case True
    then show ?thesis by (simp add: ExplicitlySpecifyGenericArguments_create_empty)
  next
    case False
    then show ?thesis
      by (auto simp add: ExplicitlySpecifyGenericArguments_create_eq getParameters_fields
          trailing_view_short)
  qed
  have g: "length mismatches < 2 ^ 32 \<and>
    GenericArgumentsMismatch_create cs actual required mismatches locator = Inr gm
      \<longrightarrow> getMismatches gm = map Some mismatches"
    using GenericArgumentsMismatch_create_Inr [of cs actual required mismatches locator gm]
    by (auto simp add: getMismatches_fields trailing_view_short)
  have ge: "is_BoundGenericType actual = Inr True \<and> is_BoundGenericType required = Inr True
      \<longrightarrow> (\<exists>gm. GenericArgumentsMismatch_create cs actual required mismatches locator
                  = Inr gm)"
    by (simp add: GenericArgumentsMismatch_create_def GenericArgumentsMismatch_ctor_def
        uninitialized_copy_allocated)
  have ee: "params \<noteq> [] \<longrightarrow>
      (\<exists>eg. ExplicitlySpecifyGenericArguments_create cs params locator = Inr eg)"
    by (simp add: ExplicitlySpecifyGenericArguments_create_eq)
  show ?thesis
    using r a e g ge ee
    by (simp add: RelabelArguments_create_eq AddMissingArguments_create_eq)
qed

theorem trailing_view_is_supplied_sequence_witness:
  "length [''x'', ''y''] < (2::nat) ^ 32 \<and>
   RelabelArguments_create (ConstraintSystem 0) [''x'', ''y''] None =
     Inr (ConstraintFix.extend
            (ConstraintFix_ctor (ConstraintSystem 0) FixKind.RelabelArguments None False)
            (RelabelArguments.fields 2 [Some ''x'', Some ''y''])) \<and>
   getLabels (ConstraintFix.extend
            (ConstraintFix_ctor (ConstraintSystem 0) FixKind.RelabelArguments None False)
            (RelabelArguments.fields 2 [Some ''x'', Some ''y''])) = [Some ''x'', Some ''y''] \<and>
   length [\<lparr>Ty = None, Label = ''a'', Flags = 0\<rparr>] < (2::nat) ^ 32 \<and>
   AddMissingArguments_create (ConstraintSystem 0) [\<lparr>Ty = None, Label = ''a'', Flags = 0\<rparr>]
       None =
     Inr (ConstraintFix.extend
            (ConstraintFix_ctor (ConstraintSystem 0) FixKind.AddMissingArguments None False)
            (AddMissingArguments.fields 1 [Some \<lparr>Ty = None, Label = ''a'', Flags = 0\<rparr>])) \<and>
   getSynthesizedArguments (ConstraintFix.extend
            (ConstraintFix_ctor (ConstraintSystem 0) FixKind.AddMissingArguments None False)
            (AddMissingArguments.fields 1 [Some \<lparr>Ty = None, Label = ''a'', Flags = 0\<rparr>])) =
     [Some \<lparr>Ty = None, Label = ''a'', Flags = 0\<rparr>] \<and>
   [Some (GenericTypeParamType 0 0)] \<noteq> [] \<and>
   length [Some (GenericTypeParamType 0 0)] < (2::nat) ^ 32 \<and>
   ExplicitlySpecifyGenericArguments_create (ConstraintSystem 0)
       [Some (GenericTypeParamType 0 0)] None =
     Inr (ConstraintFix.extend
            (ConstraintFix_ctor (ConstraintSystem 0) FixKind.ExplicitlySpecifyGenericArguments
               None False)
            (ExplicitlySpecifyGenericArguments.fields 1
               [Some (Some (GenericTypeParamType 0 0))])) \<and>
   getParameters (ConstraintFix.extend
            (ConstraintFix_ctor (ConstraintSystem 0) FixKind.ExplicitlySpecifyGenericArguments
               None False)
            (ExplicitlySpecifyGenericArguments.fields 1
               [Some (Some (GenericTypeParamType 0 0))])) =
     [Some (Some (GenericTypeParamType 0 0))] \<and>
   is_BoundGenericType (Some (BoundGenericType ''F'' [NominalType ''Int''])) = Inr True \<and>
   is_BoundGenericType (Some (BoundGenericType ''F'' [NominalType ''Bool''])) = Inr True \<and>
   length [0 :: 32 word] < (2::nat) ^ 32 \<and>
   GenericArgumentsMismatch_create (ConstraintSystem 0)
       (Some (BoundGenericType ''F'' [NominalType ''Int'']))
       (Some (BoundGenericType ''F'' [NominalType ''Bool''])) [0] None =
     Inr (ContextualMismatch.extend
            (ContextualMismatch_ctor_kind (ConstraintSystem 0) FixKind.GenericArgumentsMismatch
               (Some (BoundGenericType ''F'' [NominalType ''Int'']))
               (Some (BoundGenericType ''F'' [NominalType ''Bool''])) None False)
            (GenericArgumentsMismatch.fields 1 [Some 0])) \<and>
   getMismatches (ContextualMismatch.extend
            (ContextualMismatch_ctor_kind (ConstraintSystem 0) FixKind.GenericArgumentsMismatch
               (Some (BoundGenericType ''F'' [NominalType ''Int'']))
               (Some (BoundGenericType ''F'' [NominalType ''Bool''])) None False)
            (GenericArgumentsMismatch.fields 1 [Some 0])) = [Some 0]"
proof -
  let ?ra = "ConstraintFix.extend
            (ConstraintFix_ctor (ConstraintSystem 0) FixKind.RelabelArguments None False)
            (RelabelArguments.fields 2 [Some ''x'', Some ''y''])"
  let ?p = "\<lparr>Ty = None, Label = ''a'', Flags = 0\<rparr>"
  let ?am = "ConstraintFix.extend
            (ConstraintFix_ctor (ConstraintSystem 0) FixKind.AddMissingArguments None False)
            (AddMissingArguments.fields 1 [Some ?p])"
  let ?eg = "ConstraintFix.extend
            (ConstraintFix_ctor (ConstraintSystem 0) FixKind.ExplicitlySpecifyGenericArguments
               None False)
            (ExplicitlySpecifyGenericArguments.fields 1
               [Some (Some (GenericTypeParamType 0 0))])"
  let ?a = "Some (BoundGenericType ''F'' [NominalType ''Int''])"
  let ?r = "Some (BoundGenericType ''F'' [NominalType ''Bool''])"
  let ?gm = "ContextualMismatch.extend
            (ContextualMismatch_ctor_kind (ConstraintSystem 0) FixKind.GenericArgumentsMismatch
               ?a ?r None False)
            (GenericArgumentsMismatch.fields 1 [Some 0])"
  have h1: "RelabelArguments_create (ConstraintSystem 0) [''x'', ''y''] None = Inr ?ra"
    by (simp add: RelabelArguments_create_eq)
  have h2: "AddMissingArguments_create (ConstraintSystem 0) [?p] None = Inr ?am"
    by (simp add: AddMissingArguments_create_eq)
  have h3: "ExplicitlySpecifyGenericArguments_create (ConstraintSystem 0)
       [Some (GenericTypeParamType 0 0)] None = Inr ?eg"
    by (simp add: ExplicitlySpecifyGenericArguments_create_eq)
  have h4: "GenericArgumentsMismatch_create (ConstraintSystem 0) ?a ?r [0] None = Inr ?gm"
    by (simp add: GenericArgumentsMismatch_create_eq)
  have h5: "is_BoundGenericType ?a = Inr True" "is_BoundGenericType ?r = Inr True"
    by (simp_all add: is_BoundGenericType_def)
  show ?thesis
    using trailing_view_is_supplied_sequence
      [where cs = "ConstraintSystem 0" and locator = None
         and labels = "[''x'', ''y'']" and ra = ?ra
         and synthesizedArgs = "[?p]" and am = ?am
         and params = "[Some (GenericTypeParamType 0 0)]" and eg = ?eg
         and actual = ?a and required = ?r and mismatches = "[0]" and gm = ?gm]
      h1 h2 h3 h4 h5
    by simp
qed

text \<open>
  C3 as stated fails on a sequence of \<open>2 ^ 32\<close> labels: the factory accepts it and the
  count, narrowed to 32 bits, is 0, so that the view is empty.
\<close>

theorem trailing_view_truncated_counterexample:
  "map_sum id getLabels
     (RelabelArguments_create (ConstraintSystem 0) (replicate 4294967296 ''x'') None) = Inr []
   \<and> length (replicate 4294967296 ''x'') = 4294967296"
  by (simp add: RelabelArguments_create_eq getLabels_fields trailing_view_def)

text \<open>
  C7 (as amended). A \<^verbatim>\<open>GenericArgumentsMismatch\<close> is built for any two bound generic
  types and any list of indices; it stores the indices that its caller supplies (fewer
  than \<open>2 ^ 32\<close> of them), in the supplied order, without comparing them with the
  generic arguments of the two types. The list that \<^verbatim>\<open>getMismatches\<close> exposes is
  therefore strictly ascending exactly when the supplied list is.
\<close>

theorem mismatch_indices_are_the_supplied_ones:
  "(is_BoundGenericType actual = Inr True \<and> is_BoundGenericType required = Inr True
      \<longrightarrow> (\<exists>gm. GenericArgumentsMismatch_create cs actual required mismatches locator
                  = Inr gm)) \<and>
   (GenericArgumentsMismatch_create cs actual required mismatches locator = Inr gm \<and>
    length mismatches < 2 ^ 32
      \<longrightarrow> getMismatches gm = map Some mismatches \<and>
          (sorted_wrt (<) (map the (getMismatches gm)) \<longleftrightarrow> sorted_wrt (<) mismatches))"
proof (intro conjI impI)
  assume "is_BoundGenericType actual = Inr True \<and> is_BoundGenericType required = Inr True"
  then show "\<exists>gm. GenericArgumentsMismatch_create cs actual required mismatches locator
                  = Inr gm"
    by (simp add: GenericArgumentsMismatch_create_def GenericArgumentsMismatch_ctor_def
        uninitialized_copy_allocated)
next
  assume a: "GenericArgumentsMismatch_create cs actual required mismatches locator = Inr gm \<and>
    length mismatches < 2 ^ 32"
  then show v: "getMismatches gm = map Some mismatches"
    using GenericArgumentsMismatch_create_Inr [of cs actual required mismatches locator gm]
    by (auto simp add: getMismatches_fields trailing_view_short)
  have "map the (map Some mismatches) = mismatches"
    by (simp add: comp_def)
  with v show "sorted_wrt (<) (map the (getMismatches gm)) \<longleftrightarrow> sorted_wrt (<) mismatches"
    by simp
qed

theorem mismatch_indices_are_the_supplied_ones_witness:
  "is_BoundGenericType (Some (BoundGenericType ''F'' [NominalType ''Int'', NominalType ''Int'']))
     = Inr True \<and>
   is_BoundGenericType (Some (BoundGenericType ''F'' [NominalType ''Bool'', NominalType ''Bool'']))
     = Inr True \<and>
   length [0, 1 :: 32 word] < (2::nat) ^ 32 \<and>
   (\<exists>gm. GenericArgumentsMismatch_create (ConstraintSystem 0)
            (Some (BoundGenericType ''F'' [NominalType ''Int'', NominalType ''Int'']))
            (Some (BoundGenericType ''F'' [NominalType ''Bool'', NominalType ''Bool'']))
            [0, 1] None = Inr gm \<and>
         getMismatches gm = [Some 0, Some 1] \<and>
         sorted_wrt (<) (map the (getMismatches gm)))"
proof -
  let ?a = "Some (BoundGenericType ''F'' [NominalType ''Int'', NominalType ''Int''])"
  let ?r = "Some (BoundGenericType ''F'' [NominalType ''Bool'', NominalType ''Bool''])"
  have b: "is_BoundGenericType ?a = Inr True" "is_BoundGenericType ?r = Inr True"
    by (simp_all add: is_BoundGenericType_def)
  obtain gm where gm: "GenericArgumentsMismatch_create (ConstraintSystem 0) ?a ?r [0, 1] None
      = Inr gm"
    by (simp add: GenericArgumentsMismatch_create_eq)
  have s: "sorted_wrt (<) [0, 1 :: 32 word]" by simp
  note inst = mismatch_indices_are_the_supplied_ones
    [where cs = "ConstraintSystem 0" and actual = ?a and required = ?r
       and mismatches = "[0, 1]" and locator = None and gm = gm]
  show ?thesis
    using inst b gm s by simp
qed

text \<open>
  C7 as stated fails: for two equal types with one generic argument and the indices
  1, 1, 0 the fix is built, and the list it exposes is neither ascending nor free of
  duplicates, and names positions at which the types do not differ.
\<close>

theorem unordered_mismatches_counterexample:
  "map_sum id getMismatches
     (GenericArgumentsMismatch_create (ConstraintSystem 0)
        (Some (BoundGenericType ''F'' [NominalType ''Int'']))
        (Some (BoundGenericType ''F'' [NominalType ''Int''])) [1, 1, 0] None) =
     Inr [Some 1, Some 1, Some 0] \<and>
   \<not> sorted_wrt (<) [1, 1, 0 :: 32 word] \<and> \<not> distinct [1, 1, 0 :: 32 word]"
  by (simp add: GenericArgumentsMismatch_create_eq getMismatches_fields trailing_view_def)

section \<open>Kinds\<close>

text \<open>
  C1. For every concrete class, the instance that its constructor leaves has the kind
  of that class: the one named in the constructor's call of the base constructor, and
  for \<^verbatim>\<open>UnwrapOptionalBase\<close> the one its caller passes, which the assertion restricts to
  the two kinds of that class. \<^verbatim>\<open>UnwrapOptionalBase::create\<close> yields
  \<^verbatim>\<open>UnwrapOptionalBase\<close> and \<^verbatim>\<open>createWithOptionalResult\<close> yields
  \<^verbatim>\<open>UnwrapOptionalBaseWithOptionalResult\<close>. The kind is written by the base constructor
  only: the field is private to \<^verbatim>\<open>ConstraintFix\<close>, the derived constructors extend the
  base object without touching it, and every operation of the header on a constructed
  fix is an accessor that returns a value.
\<close>

theorem fresh_instance_kind:
  "(ForceOptional_ctor cs baseType unwrappedType locator = Inr fo
      \<longrightarrow> getKind fo = FixKind.ForceOptional) \<and>
   (UnwrapOptionalBase_ctor cs kind memberName locator = Inr uo \<longrightarrow>
      getKind uo = kind \<and>
      (kind = FixKind.UnwrapOptionalBase \<or> kind = FixKind.UnwrapOptionalBaseWithOptionalResult)) \<and>
   getKind (TreatRValueAsLValue_ctor cs locator) =
     FixKind.TreatRValueAsLValue \<and>
   getKind (MarkExplicitlyEscaping_ctor cs locator convertingTo) =
     FixKind.ExplicitlyEscaping \<and>
   (RelabelArguments_ctor lmem cs correctLabels locator = Inr ra
      \<longrightarrow> getKind ra = FixKind.RelabelArguments) \<and>
   getKind (MissingConformance_ctor cs isContextual type protocolType locator) =
     FixKind.AddConformance \<and>
   getKind (SkipSameTypeRequirement_ctor cs lhs rhs locator) =
     FixKind.SkipSameTypeRequirement \<and>
   getKind (SkipSuperclassRequirement_ctor cs lhs rhs locator) =
     FixKind.SkipSuperclassRequirement \<and>
   getKind (ContextualMismatch_ctor cs lhs rhs locator) =
     FixKind.ContextualMismatch \<and>
   (DropThrowsAttribute_ctor cs fromFn toFn locator = Inr dt
      \<longrightarrow> getKind dt = FixKind.ContextualMismatch) \<and>
   getKind (ForceDowncast_ctor cs fromType toType locator) =
     FixKind.ForceDowncast \<and>
   getKind (AddAddressOf_ctor cs argTy paramTy locator) =
     FixKind.AddressOf \<and>
   getKind (RemoveAddressOf_ctor cs lhs rhs locator) =
     FixKind.RemoveAddressOf \<and>
   (GenericArgumentsMismatch_ctor gmem cs actual required mismatches locator = Inr gm
      \<longrightarrow> getKind gm = FixKind.GenericArgumentsMismatch) \<and>
   getKind (KeyPathContextualMismatch_ctor cs lhs rhs locator) =
     FixKind.ContextualMismatch \<and>
   getKind (AutoClosureForwarding_ctor cs locator) =
     FixKind.AutoClosureForwarding \<and>
   getKind (AllowAutoClosurePointerConversion_ctor cs pointeeType pointerType locator) =
     FixKind.ContextualMismatch \<and>
   getKind (RemoveUnwrap_ctor cs baseType locator) =
     FixKind.RemoveUnwrap \<and>
   getKind (InsertExplicitCall_ctor cs locator) =
     FixKind.InsertCall \<and>
   getKind (UsePropertyWrapper_ctor cs wrapped usingStorage base wrapper locator) =
     FixKind.UsePropertyWrapper \<and>
   getKind (UseWrappedValue_ctor cs propertyWrapper base wrapper locator) =
     FixKind.UseWrappedValue \<and>
   getKind (UseSubscriptOperator_ctor cs locator) =
     FixKind.UseSubscriptOperator \<and>
   getKind (DefineMemberBasedOnUse_ctor cs baseType memberName locator) =
     FixKind.DefineMemberBasedOnUse \<and>
   getKind (AllowMemberRefOnExistential_ctor cs baseType memberName member locator) =
     FixKind.AllowMemberRefOnExistential \<and>
   (AllowTypeOrInstanceMember_ctor cs baseType member memberName locator = Inr tm
      \<longrightarrow> getKind tm = FixKind.AllowTypeOrInstanceMember) \<and>
   getKind (AllowInvalidPartialApplication_ctor warning cs locator) =
     FixKind.AllowInvalidPartialApplication \<and>
   getKind (AllowInvalidInitRef_ctor cs refKind baseTy init derived baseRange locator) =
     FixKind.AllowInvalidInitRef \<and>
   getKind (AllowTupleTypeMismatch_ctor cs lhs rhs locator) =
     FixKind.AllowTupleTypeMismatch \<and>
   getKind (AllowMutatingMemberOnRValueBase_ctor cs baseType member memberName locator) =
     FixKind.AllowMutatingMemberOnRValueBase \<and>
   getKind (AllowClosureParamDestructuring_ctor cs contextualType locator) =
     FixKind.AllowClosureParameterDestructuring \<and>
   (AddMissingArguments_ctor amem cs synthesizedArgs locator = Inr am
      \<longrightarrow> getKind am = FixKind.AddMissingArguments) \<and>
   getKind (MoveOutOfOrderArgument_ctor cs argIdx prevArgIdx bindings locator) =
     FixKind.MoveOutOfOrderArgument \<and>
   getKind (AllowInaccessibleMember_ctor cs baseType member memberName locator) =
     FixKind.AllowInaccessibleMember \<and>
   getKind (AllowAnyObjectKeyPathRoot_ctor cs locator) =
     FixKind.AllowAnyObjectKeyPathRoot \<and>
   getKind (TreatKeyPathSubscriptIndexAsHashable_ctor cs type locator) =
     FixKind.TreatKeyPathSubscriptIndexAsHashable \<and>
   getKind (AllowInvalidRefInKeyPath_ctor cs keyPathRefKind member locator) =
     FixKind.AllowInvalidRefInKeyPath \<and>
   getKind (RemoveReturn_ctor cs locator) =
     FixKind.RemoveReturn \<and>
   getKind (CollectionElementContextualMismatch_ctor cs srcType dstType locator) =
     FixKind.ContextualMismatch \<and>
   (ExplicitlySpecifyGenericArguments_ctor pmem cs params locator = Inr eg
      \<longrightarrow> getKind eg = FixKind.ExplicitlySpecifyGenericArguments) \<and>
   getKind (SkipUnhandledConstructInFunctionBuilder_ctor cs node builderDecl locator) =
     FixKind.SkipUnhandledConstructInFunctionBuilder \<and>
   getKind (AllowTupleSplatForSingleParameter_ctor cs paramTy locator) =
     FixKind.AllowTupleSplatForSingleParameter \<and>
   getKind (IgnoreContextualType_ctor cs resultTy specifiedTy locator) =
     FixKind.ContextualMismatch \<and>
   getKind (IgnoreAssignmentDestinationType_ctor cs sourceTy destTy locator) =
     FixKind.ContextualMismatch \<and>
   getKind (AllowInOutConversion_ctor cs argType paramType locator) =
     FixKind.ContextualMismatch \<and>
   getKind (AllowArgumentMismatch_ctor cs argType paramType locator) =
     FixKind.AllowArgumentTypeMismatch \<and>
   getKind (ExpandArrayIntoVarargs_ctor cs argType paramType locator) =
     FixKind.ExpandArrayIntoVarargs \<and>
   getKind (ExplicitlyConstructRawRepresentable_ctor cs argType paramType locator) =
     FixKind.ExplicitlyConstructRawRepresentable \<and>
   getKind (UseValueTypeOfRawRepresentative_ctor cs argType paramType locator) =
     FixKind.UseValueTypeOfRawRepresentative \<and>
   getKind (CoerceToCheckedCast_ctor cs fromType toType locator) =
     FixKind.CoerceToCheckedCast \<and>
   map_sum id getKind (UnwrapOptionalBase_create cs memberName locator) =
     Inr FixKind.UnwrapOptionalBase \<and>
   map_sum id getKind (UnwrapOptionalBase_createWithOptionalResult cs memberName locator) =
     Inr FixKind.UnwrapOptionalBaseWithOptionalResult"
  apply (intro conjI impI)
  apply (auto simp add: ctor_defs UnwrapOptionalBase_create_def
      UnwrapOptionalBase_createWithOptionalResult_def Let_def
      split: if_splits option.splits sum.splits)
  done

theorem fresh_instance_kind_witness:
  "(\<exists>fo. ForceOptional_ctor (ConstraintSystem 0) (Some (NominalType ''A'')) (Some (NominalType ''B'')) (Some (ConstraintLocator 1)) = Inr fo \<and>
      getKind fo = FixKind.ForceOptional) \<and>
   (\<exists>uo. UnwrapOptionalBase_ctor (ConstraintSystem 0) FixKind.UnwrapOptionalBase ''count'' (Some (ConstraintLocator 1)) = Inr uo \<and>
      getKind uo = FixKind.UnwrapOptionalBase) \<and>
   (\<exists>ra. RelabelArguments_ctor [None, None] (ConstraintSystem 0) [''x'', ''y''] (Some (ConstraintLocator 1)) = Inr ra \<and>
      getKind ra = FixKind.RelabelArguments) \<and>
   (\<exists>dt. DropThrowsAttribute_ctor (ConstraintSystem 0) (Some (FunctionType [] (NominalType ''Int'') True)) (Some (FunctionType [] (NominalType ''Int'') False)) (Some (ConstraintLocator 1)) = Inr dt \<and>
      getKind dt = FixKind.ContextualMismatch) \<and>
   (\<exists>gm. GenericArgumentsMismatch_ctor [None] (ConstraintSystem 0) (Some (BoundGenericType ''F'' [NominalType ''Int''])) (Some (BoundGenericType ''F'' [NominalType ''Bool''])) [0] (Some (ConstraintLocator 1)) = Inr gm \<and>
      getKind gm = FixKind.GenericArgumentsMismatch) \<and>
   (\<exists>tm. AllowTypeOrInstanceMember_ctor (ConstraintSystem 0) (Some (NominalType ''A'')) (Some 7) ''count'' (Some (ConstraintLocator 1)) = Inr tm \<and>
      getKind tm = FixKind.AllowTypeOrInstanceMember) \<and>
   (\<exists>am. AddMissingArguments_ctor [None] (ConstraintSystem 0) [\<lparr>Ty = None, Label = ''a'', Flags = 0\<rparr>] (Some (ConstraintLocator 1)) = Inr am \<and>
      getKind am = FixKind.AddMissingArguments) \<and>
   (\<exists>eg. ExplicitlySpecifyGenericArguments_ctor [None] (ConstraintSystem 0) [Some (GenericTypeParamType 0 0)] (Some (ConstraintLocator 1)) = Inr eg \<and>
      getKind eg = FixKind.ExplicitlySpecifyGenericArguments)"
proof -
  let ?cs = "ConstraintSystem 0"
  let ?loc = "Some (ConstraintLocator 1)"
  let ?tA = "Some (NominalType ''A'')"
  let ?tB = "Some (NominalType ''B'')"
  let ?fT = "Some (FunctionType [] (NominalType ''Int'') True)"
  let ?fF = "Some (FunctionType [] (NominalType ''Int'') False)"
  let ?gA = "Some (BoundGenericType ''F'' [NominalType ''Int''])"
  let ?gB = "Some (BoundGenericType ''F'' [NominalType ''Bool''])"
  let ?p = "\<lparr>Ty = None, Label = ''a'', Flags = 0\<rparr>"
  obtain fo where fo_eq: "ForceOptional_ctor ?cs ?tA ?tB ?loc = Inr fo"
    by (simp add: ForceOptional_ctor_def)
  obtain uo where uo_eq: "UnwrapOptionalBase_ctor ?cs FixKind.UnwrapOptionalBase ''count'' ?loc = Inr uo"
    by (simp add: UnwrapOptionalBase_ctor_def)
  obtain ra where ra_eq: "RelabelArguments_ctor [None, None] ?cs [''x'', ''y''] ?loc = Inr ra"
    by (simp add: RelabelArguments_ctor_def)
  obtain dt where dt_eq: "DropThrowsAttribute_ctor ?cs ?fT ?fF ?loc = Inr dt"
    by (simp add: DropThrowsAttribute_ctor_def)
  obtain gm where gm_eq: "GenericArgumentsMismatch_ctor [None] ?cs ?gA ?gB [0] ?loc = Inr gm"
    by (simp add: GenericArgumentsMismatch_ctor_def is_BoundGenericType_def)
  obtain tm where tm_eq: "AllowTypeOrInstanceMember_ctor ?cs ?tA (Some 7) ''count'' ?loc = Inr tm"
    by (simp add: AllowTypeOrInstanceMember_ctor_def)
  obtain am where am_eq: "AddMissingArguments_ctor [None] ?cs [?p] ?loc = Inr am"
    by (simp add: AddMissingArguments_ctor_def)
  obtain eg where eg_eq: "ExplicitlySpecifyGenericArguments_ctor [None] ?cs [Some (GenericTypeParamType 0 0)] ?loc = Inr eg"
    by (simp add: ExplicitlySpecifyGenericArguments_ctor_def)
  note inst = fresh_instance_kind
    [where cs = ?cs and locator = ?loc and baseType = ?tA and unwrappedType = ?tB and fo = fo
       and kind = FixKind.UnwrapOptionalBase and memberName = "''count''" and uo = uo
       and lmem = "[None, None]" and correctLabels = "[''x'', ''y'']" and ra = ra
       and fromFn = ?fT and toFn = ?fF and dt = dt
       and gmem = "[None]" and actual = ?gA and required = ?gB and mismatches = "[0]" and gm = gm
       and member = "Some 7" and tm = tm
       and amem = "[None]" and synthesizedArgs = "[?p]" and am = am
       and pmem = "[None]" and params = "[Some (GenericTypeParamType 0 0)]" and eg = eg]
  show ?thesis
    using inst fo_eq uo_eq ra_eq dt_eq gm_eq tm_eq am_eq eg_eq
    by simp
qed




section \<open>Locators\<close>

text \<open>
  C6 (as amended). The locator of a constructed fix, of any class, is the pointer that
  was handed to its constructor; it is non-null exactly when that pointer was.
\<close>

theorem locator_is_the_one_supplied:
  "(ForceOptional_ctor cs baseType unwrappedType locator = Inr fo
      \<longrightarrow> getLocator fo = locator) \<and>
   (UnwrapOptionalBase_ctor cs kind memberName locator = Inr uo
      \<longrightarrow> getLocator uo = locator) \<and>
   getLocator (TreatRValueAsLValue_ctor cs locator) =
     locator \<and>
   getLocator (MarkExplicitlyEscaping_ctor cs locator convertingTo) =
     locator \<and>
   (RelabelArguments_ctor lmem cs correctLabels locator = Inr ra
      \<longrightarrow> getLocator ra = locator) \<and>
   getLocator (MissingConformance_ctor cs isContextual type protocolType locator) =
     locator \<and>
   getLocator (SkipSameTypeRequirement_ctor cs lhs rhs locator) =
     locator \<and>
   getLocator (SkipSuperclassRequirement_ctor cs lhs rhs locator) =
     locator \<and>
   getLocator (ContextualMismatch_ctor cs lhs rhs locator) =
     locator \<and>
   (DropThrowsAttribute_ctor cs fromFn toFn locator = Inr dt
      \<longrightarrow> getLocator dt = locator) \<and>
   getLocator (ForceDowncast_ctor cs fromType toType locator) =
     locator \<and>
   getLocator (AddAddressOf_ctor cs argTy paramTy locator) =
     locator \<and>
   getLocator (RemoveAddressOf_ctor cs lhs rhs locator) =
     locator \<and>
   (GenericArgumentsMismatch_ctor gmem cs actual required mismatches locator = Inr gm
      \<longrightarrow> getLocator gm = locator) \<and>
   getLocator (KeyPathContextualMismatch_ctor cs lhs rhs locator) =
     locator \<and>
   getLocator (AutoClosureForwarding_ctor cs locator) =
     locator \<and>
   getLocator (AllowAutoClosurePointerConversion_ctor cs pointeeType pointerType locator) =
     locator \<and>
   getLocator (RemoveUnwrap_ctor cs baseType locator) =
     locator \<and>
   getLocator (InsertExplicitCall_ctor cs locator) =
     locator \<and>
   getLocator (UsePropertyWrapper_ctor cs wrapped usingStorage base wrapper locator) =
     locator \<and>
   getLocator (UseWrappedValue_ctor cs propertyWrapper base wrapper locator) =
     locator \<and>
   getLocator (UseSubscriptOperator_ctor cs locator) =
     locator \<and>
   getLocator (DefineMemberBasedOnUse_ctor cs baseType memberName locator) =
     locator \<and>
   getLocator (AllowMemberRefOnExistential_ctor cs baseType memberName member locator) =
     locator \<and>
   (AllowTypeOrInstanceMember_ctor cs baseType member memberName locator = Inr tm
      \<longrightarrow> getLocator tm = locator) \<and>
   getLocator (AllowInvalidPartialApplication_ctor warning cs locator) =
     locator \<and>
   getLocator (AllowInvalidInitRef_ctor cs refKind baseTy init derived baseRange locator) =
     locator \<and>
   getLocator (AllowTupleTypeMismatch_ctor cs lhs rhs locator) =
     locator \<and>
   getLocator (AllowMutatingMemberOnRValueBase_ctor cs baseType member memberName locator) =
     locator \<and>
   getLocator (AllowClosureParamDestructuring_ctor cs contextualType locator) =
     locator \<and>
   (AddMissingArguments_ctor amem cs synthesizedArgs locator = Inr am
      \<longrightarrow> getLocator am = locator) \<and>
   getLocator (MoveOutOfOrderArgument_ctor cs argIdx prevArgIdx bindings locator) =
     locator \<and>
   getLocator (AllowInaccessibleMember_ctor cs baseType member memberName locator) =
     locator \<and>
   getLocator (AllowAnyObjectKeyPathRoot_ctor cs locator) =
     locator \<and>
   getLocator (TreatKeyPathSubscriptIndexAsHashable_ctor cs type locator) =
     locator \<and>
   getLocator (AllowInvalidRefInKeyPath_ctor cs keyPathRefKind member locator) =
     locator \<and>
   getLocator (RemoveReturn_ctor cs locator) =
     locator \<and>
   getLocator (CollectionElementContextualMismatch_ctor cs srcType dstType locator) =
     locator \<and>
   (ExplicitlySpecifyGenericArguments_ctor pmem cs params locator = Inr eg
      \<longrightarrow> getLocator eg = locator) \<and>
   getLocator (SkipUnhandledConstructInFunctionBuilder_ctor cs node builderDecl locator) =
     locator \<and>
   getLocator (AllowTupleSplatForSingleParameter_ctor cs paramTy locator) =
     locator \<and>
   getLocator (IgnoreContextualType_ctor cs resultTy specifiedTy locator) =
     locator \<and>
   getLocator (IgnoreAssignmentDestinationType_ctor cs sourceTy destTy locator) =
     locator \<and>
   getLocator (AllowInOutConversion_ctor cs argType paramType locator) =
     locator \<and>
   getLocator (AllowArgumentMismatch_ctor cs argType paramType locator) =
     locator \<and>
   getLocator (ExpandArrayIntoVarargs_ctor cs argType paramType locator) =
     locator \<and>
   getLocator (ExplicitlyConstructRawRepresentable_ctor cs argType paramType locator) =
     locator \<and>
   getLocator (UseValueTypeOfRawRepresentative_ctor cs argType paramType locator) =
     locator \<and>
   getLocator (CoerceToCheckedCast_ctor cs fromType toType locator) =
     locator"
  apply (intro conjI impI)
  apply (auto simp add: ctor_defs Let_def split: if_splits option.splits sum.splits)
  done

theorem locator_is_the_one_supplied_witness:
  "(\<exists>fo. ForceOptional_ctor (ConstraintSystem 0) (Some (NominalType ''A'')) (Some (NominalType ''B'')) (Some (ConstraintLocator 1)) = Inr fo \<and>
      getLocator fo = Some (ConstraintLocator 1)) \<and>
   (\<exists>uo. UnwrapOptionalBase_ctor (ConstraintSystem 0) FixKind.UnwrapOptionalBase ''count'' (Some (ConstraintLocator 1)) = Inr uo \<and>
      getLocator uo = Some (ConstraintLocator 1)) \<and>
   (\<exists>ra. RelabelArguments_ctor [None, None] (ConstraintSystem 0) [''x'', ''y''] (Some (ConstraintLocator 1)) = Inr ra \<and>
      getLocator ra = Some (ConstraintLocator 1)) \<and>
   (\<exists>dt. DropThrowsAttribute_ctor (ConstraintSystem 0) (Some (FunctionType [] (NominalType ''Int'') True)) (Some (FunctionType [] (NominalType ''Int'') False)) (Some (ConstraintLocator 1)) = Inr dt \<and>
      getLocator dt = Some (ConstraintLocator 1)) \<and>
   (\<exists>gm. GenericArgumentsMismatch_ctor [None] (ConstraintSystem 0) (Some (BoundGenericType ''F'' [NominalType ''Int''])) (Some (BoundGenericType ''F'' [NominalType ''Bool''])) [0] (Some (ConstraintLocator 1)) = Inr gm \<and>
      getLocator gm = Some (ConstraintLocator 1)) \<and>
   (\<exists>tm. AllowTypeOrInstanceMember_ctor (ConstraintSystem 0) (Some (NominalType ''A'')) (Some 7) ''count'' (Some (ConstraintLocator 1)) = Inr tm \<and>
      getLocator tm = Some (ConstraintLocator 1)) \<and>
   (\<exists>am. AddMissingArguments_ctor [None] (ConstraintSystem 0) [\<lparr>Ty = None, Label = ''a'', Flags = 0\<rparr>] (Some (ConstraintLocator 1)) = Inr am \<and>
      getLocator am = Some (ConstraintLocator 1)) \<and>
   (\<exists>eg. ExplicitlySpecifyGenericArguments_ctor [None] (ConstraintSystem 0) [Some (GenericTypeParamType 0 0)] (Some (ConstraintLocator 1)) = Inr eg \<and>
      getLocator eg = Some (ConstraintLocator 1))"
proof -
  let ?cs = "ConstraintSystem 0"
  let ?loc = "Some (ConstraintLocator 1)"
  let ?tA = "Some (NominalType ''A'')"
  let ?tB = "Some (NominalType ''B'')"
  let ?fT = "Some (FunctionType [] (NominalType ''Int'') True)"
  let ?fF = "Some (FunctionType [] (NominalType ''Int'') False)"
  let ?gA = "Some (BoundGenericType ''F'' [NominalType ''Int''])"
  let ?gB = "Some (BoundGenericType ''F'' [NominalType ''Bool''])"
  let ?p = "\<lparr>Ty = None, Label = ''a'', Flags = 0\<rparr>"
  obtain fo where fo_eq: "ForceOptional_ctor ?cs ?tA ?tB ?loc = Inr fo"
    by (simp add: ForceOptional_ctor_def)
  obtain uo where uo_eq: "UnwrapOptionalBase_ctor ?cs FixKind.UnwrapOptionalBase ''count'' ?loc = Inr uo"
    by (simp add: UnwrapOptionalBase_ctor_def)
  obtain ra where ra_eq: "RelabelArguments_ctor [None, None] ?cs [''x'', ''y''] ?loc = Inr ra"
    by (simp add: RelabelArguments_ctor_def)
  obtain dt where dt_eq: "DropThrowsAttribute_ctor ?cs ?fT ?fF ?loc = Inr dt"
    by (simp add: DropThrowsAttribute_ctor_def)
  obtain gm where gm_eq: "GenericArgumentsMismatch_ctor [None] ?cs ?gA ?gB [0] ?loc = Inr gm"
    by (simp add: GenericArgumentsMismatch_ctor_def is_BoundGenericType_def)
  obtain tm where tm_eq: "AllowTypeOrInstanceMember_ctor ?cs ?tA (Some 7) ''count'' ?loc = Inr tm"
    by (simp add: AllowTypeOrInstanceMember_ctor_def)
  obtain am where am_eq: "AddMissingArguments_ctor [None] ?cs [?p] ?loc = Inr am"
    by (simp add: AddMissingArguments_ctor_def)
  obtain eg where eg_eq: "ExplicitlySpecifyGenericArguments_ctor [None] ?cs [Some (GenericTypeParamType 0 0)] ?loc = Inr eg"
    by (simp add: ExplicitlySpecifyGenericArguments_ctor_def)
  note inst = locator_is_the_one_supplied
    [where cs = ?cs and locator = ?loc and baseType = ?tA and unwrappedType = ?tB and fo = fo
       and kind = FixKind.UnwrapOptionalBase and memberName = "''count''" and uo = uo
       and lmem = "[None, None]" and correctLabels = "[''x'', ''y'']" and ra = ra
       and fromFn = ?fT and toFn = ?fF and dt = dt
       and gmem = "[None]" and actual = ?gA and required = ?gB and mismatches = "[0]" and gm = gm
       and member = "Some 7" and tm = tm
       and amem = "[None]" and synthesizedArgs = "[?p]" and am = am
       and pmem = "[None]" and params = "[Some (GenericTypeParamType 0 0)]" and eg = eg]
  show ?thesis
    using inst fo_eq uo_eq ra_eq dt_eq gm_eq tm_eq am_eq eg_eq
    by simp
qed

text \<open>
  C6 as stated fails: nothing checks the locator, and a fix made with a null locator
  returns a null locator.
\<close>

theorem null_locator_counterexample:
  "getLocator (TreatRValueAsLValue_create (ConstraintSystem 0) None) = None \<and>
   getLocator (TreatRValueAsLValue_ctor (ConstraintSystem 0) None) = None"
  by (simp add: TreatRValueAsLValue_create_def TreatRValueAsLValue_ctor_def)

section \<open>The contextual-mismatch pair\<close>



section \<open>The tuple-splat probe, as specified\<close>

text \<open>
  C5. The probe reports success (\<open>False\<close>, after the header's convention) exactly when
  a single parameter remains whose type is a tuple with as many elements as there are
  arguments; it then replaces the arguments by their fold, one element, and the
  binding table by the binding of the parameter to it. When it reports that the fix
  does not apply (\<open>True\<close>), the argument list and the binding table are returned as they
  were. With two arguments and one parameter of a 2-tuple type it succeeds and leaves
  one argument; with two arguments and two parameters it reports that the fix does not
  apply and changes nothing.
\<close>

theorem tuple_splat_probe:
  "(\<not> fst (AllowTupleSplatForSingleParameter_attempt cs args params bindings locator)
      \<longleftrightarrow> (\<exists>param elts. params = [param] \<and> Ty param = Some (TupleType elts) \<and>
             tupleCompatible args elts)) \<and>
   (fst (AllowTupleSplatForSingleParameter_attempt cs args params bindings locator)
      \<longrightarrow> snd (AllowTupleSplatForSingleParameter_attempt cs args params bindings locator) =
           (args, bindings)) \<and>
   (\<not> fst (AllowTupleSplatForSingleParameter_attempt cs args params bindings locator)
      \<longrightarrow> AllowTupleSplatForSingleParameter_attempt cs args params bindings locator =
           (False, [foldArguments (hd params) args], [[0]])) \<and>
   (length args = 2 \<and> params = [param] \<and> Ty param = Some (TupleType [e1, e2])
      \<longrightarrow> \<not> fst (AllowTupleSplatForSingleParameter_attempt cs args params bindings locator) \<and>
          length (fst (snd (AllowTupleSplatForSingleParameter_attempt cs args params bindings
                              locator))) = 1) \<and>
   (length args = 2 \<and> length params = 2
      \<longrightarrow> AllowTupleSplatForSingleParameter_attempt cs args params bindings locator =
           (True, args, bindings))"
proof -
  have two: "length params = 2 \<Longrightarrow> \<exists>p q. params = [p, q]"
    by (cases params; cases "tl params"; auto)
  show ?thesis
    apply (intro conjI impI)
    apply (auto simp add: AllowTupleSplatForSingleParameter_attempt_def tupleCompatible_def
        dest!: two split: list.splits option.splits TypeBase.splits if_splits)
    done
qed

theorem tuple_splat_probe_witness:
  "length [\<lparr>Ty = Some (NominalType ''Int''), Label = [], Flags = 0\<rparr>,
           \<lparr>Ty = Some (NominalType ''Int''), Label = [], Flags = 0\<rparr>] = 2 \<and>
   Ty \<lparr>Ty = Some (TupleType [([], Some (NominalType ''Int'')),
                               ([], Some (NominalType ''Int''))]),
        Label = [], Flags = 0\<rparr> =
     Some (TupleType [([], Some (NominalType ''Int'')), ([], Some (NominalType ''Int''))]) \<and>
   AllowTupleSplatForSingleParameter_attempt (ConstraintSystem 0)
     [\<lparr>Ty = Some (NominalType ''Int''), Label = [], Flags = 0\<rparr>,
      \<lparr>Ty = Some (NominalType ''Int''), Label = [], Flags = 0\<rparr>]
     [\<lparr>Ty = Some (TupleType [([], Some (NominalType ''Int'')),
                               ([], Some (NominalType ''Int''))]),
        Label = [], Flags = 0\<rparr>]
     [[0, 1]] None =
     (False,
      [\<lparr>Ty = Some (TupleType [([], Some (NominalType ''Int'')),
                                ([], Some (NominalType ''Int''))]),
         Label = [], Flags = 0\<rparr>],
      [[0]]) \<and>
   length [\<lparr>Ty = Some (NominalType ''Int''), Label = ''a'', Flags = 0\<rparr>,
           \<lparr>Ty = Some (NominalType ''Int''), Label = ''b'', Flags = 0\<rparr>] = 2 \<and>
   AllowTupleSplatForSingleParameter_attempt (ConstraintSystem 0)
     [\<lparr>Ty = Some (NominalType ''Int''), Label = [], Flags = 0\<rparr>,
      \<lparr>Ty = Some (NominalType ''Int''), Label = [], Flags = 0\<rparr>]
     [\<lparr>Ty = Some (NominalType ''Int''), Label = ''a'', Flags = 0\<rparr>,
      \<lparr>Ty = Some (NominalType ''Int''), Label = ''b'', Flags = 0\<rparr>]
     [[0], [1]] None =
     (True,
      [\<lparr>Ty = Some (NominalType ''Int''), Label = [], Flags = 0\<rparr>,
       \<lparr>Ty = Some (NominalType ''Int''), Label = [], Flags = 0\<rparr>],
      [[0], [1]])"
proof -
  let ?i = "Some (NominalType ''Int'')"
  let ?arg = "\<lparr>Ty = ?i, Label = [], Flags = 0\<rparr>"
  let ?tp = "\<lparr>Ty = Some (TupleType [([], ?i), ([], ?i)]), Label = [], Flags = 0\<rparr>"
  let ?pa = "\<lparr>Ty = ?i, Label = ''a'', Flags = 0\<rparr>"
  let ?pb = "\<lparr>Ty = ?i, Label = ''b'', Flags = 0\<rparr>"
  note ok = tuple_splat_probe
    [where cs = "ConstraintSystem 0" and args = "[?arg, ?arg]" and params = "[?tp]"
       and bindings = "[[0, 1]]" and locator = None and param = ?tp
       and ?e1.0 = "([], ?i)" and ?e2.0 = "([], ?i)"]
  note no = tuple_splat_probe
    [where cs = "ConstraintSystem 0" and args = "[?arg, ?arg]" and params = "[?pa, ?pb]"
       and bindings = "[[0], [1]]" and locator = None]
  have folded: "foldArguments ?tp [?arg, ?arg] = ?tp"
    by (simp add: foldArguments_def)
  show ?thesis
    using ok no folded by simp
qed

section \<open>Property wrappers\<close>

text \<open>
  C8 (as amended). \<^verbatim>\<open>UsePropertyWrapper\<close> stores the declaration, the flag, the base type
  and the wrapper type that its factory is given. \<^verbatim>\<open>UseWrappedValue\<close> stores the
  declaration, the base type and the wrapper type that its factory is given and no
  flag: \<^verbatim>\<open>usingStorageWrapper()\<close> computes it when asked, as whether the name of the
  declaration does not start with an underscore.
\<close>

theorem property_wrapper_payload:
  "UsePropertyWrapper.Wrapped
     (UsePropertyWrapper_create cs wrapped flag base wrapper locator) = wrapped \<and>
   UsePropertyWrapper.UsingStorageWrapper
     (UsePropertyWrapper_create cs wrapped flag base wrapper locator) = flag \<and>
   UsePropertyWrapper.Base
     (UsePropertyWrapper_create cs wrapped flag base wrapper locator) = base \<and>
   UsePropertyWrapper.Wrapper
     (UsePropertyWrapper_create cs wrapped flag base wrapper locator) = wrapper \<and>
   UseWrappedValue.PropertyWrapper
     (UseWrappedValue_create cs propertyWrapper base wrapper locator) = propertyWrapper \<and>
   UseWrappedValue.Base
     (UseWrappedValue_create cs propertyWrapper base wrapper locator) = base \<and>
   UseWrappedValue.Wrapper
     (UseWrappedValue_create cs propertyWrapper base wrapper locator) = wrapper \<and>
   (map_of decls a = Some d
      \<longrightarrow> usingStorageWrapper decls (UseWrappedValue_create cs (Some a) base wrapper locator) =
           Inr (\<not> startswith (VarDecl_name d) ''_''))"
  by (simp add: UsePropertyWrapper_create_def UsePropertyWrapper_ctor_def
      UseWrappedValue_create_def UseWrappedValue_ctor_def usingStorageWrapper_def
      ConstraintFix.defs UsePropertyWrapper.defs UseWrappedValue.defs)

theorem property_wrapper_payload_witness:
  "map_of [(1, \<lparr>VarDecl_name = ''_x''\<rparr>)] 1 = Some \<lparr>VarDecl_name = ''_x''\<rparr> \<and>
   usingStorageWrapper [(1, \<lparr>VarDecl_name = ''_x''\<rparr>)]
     (UseWrappedValue_create (ConstraintSystem 0) (Some 1) (Some (NominalType ''S''))
        (Some (NominalType ''W'')) None) = Inr False"
  using property_wrapper_payload
    [where decls = "[(1, \<lparr>VarDecl_name = ''_x''\<rparr>)]" and a = 1
       and d = "\<lparr>VarDecl_name = ''_x''\<rparr>" and cs = "ConstraintSystem 0"
       and base = "Some (NominalType ''S'')" and wrapper = "Some (NominalType ''W'')"
       and locator = None]
  by (simp add: startswith_def)

text \<open>
  C8 as stated fails for \<^verbatim>\<open>UseWrappedValue\<close>: the flag is not fixed by the arguments of
  the factory. The same arguments give a fix whose flag is false when the declaration
  at the stored address is named \<^verbatim>\<open>_x\<close> and true when it is named \<^verbatim>\<open>x\<close>.
\<close>

theorem wrapped_value_flag_counterexample:
  "usingStorageWrapper [(1, \<lparr>VarDecl_name = ''_x''\<rparr>)]
     (UseWrappedValue_create (ConstraintSystem 0) (Some 1) (Some (NominalType ''S''))
        (Some (NominalType ''W'')) None) = Inr False \<and>
   usingStorageWrapper [(1, \<lparr>VarDecl_name = ''x''\<rparr>)]
     (UseWrappedValue_create (ConstraintSystem 0) (Some 1) (Some (NominalType ''S''))
        (Some (NominalType ''W'')) None) = Inr True"
  by (simp add: UseWrappedValue_create_def UseWrappedValue_ctor_def usingStorageWrapper_def
      ConstraintFix.defs UseWrappedValue.defs startswith_def)

section \<open>Assertions in constructors\<close>

text \<open>
  C9. In a build with assertions, the constructor of \<^verbatim>\<open>ForceOptional\<close> stops in an
  assertion exactly when the base type or the unwrapped type is null, that of
  \<^verbatim>\<open>ExplicitlySpecifyGenericArguments\<close> exactly when the parameter list is empty, and
  that of \<^verbatim>\<open>DropThrowsAttribute\<close>, given two function types, exactly when they agree in
  their \<^verbatim>\<open>throws\<close> bit. When the precondition holds the constructor completes and
  leaves a fix (for \<^verbatim>\<open>ExplicitlySpecifyGenericArguments\<close>, on an allocation with room
  for the parameters, which is what its factory provides).
\<close>

theorem construction_preconditions:
  "(ForceOptional_ctor cs baseType unwrappedType locator = Inl AssertionFailure
      \<longleftrightarrow> baseType = None \<or> unwrappedType = None) \<and>
   (baseType \<noteq> None \<and> unwrappedType \<noteq> None
      \<longrightarrow> (\<exists>fo. ForceOptional_ctor cs baseType unwrappedType locator = Inr fo)) \<and>
   (ExplicitlySpecifyGenericArguments_ctor pmem cs params locator = Inl AssertionFailure
      \<longleftrightarrow> params = []) \<and>
   (params \<noteq> [] \<and> length params \<le> length pmem
      \<longrightarrow> (\<exists>eg. ExplicitlySpecifyGenericArguments_ctor pmem cs params locator = Inr eg)) \<and>
   (DropThrowsAttribute_ctor cs (Some fromFn) (Some toFn) locator = Inl AssertionFailure
      \<longleftrightarrow> throws fromFn = throws toFn) \<and>
   (throws fromFn \<noteq> throws toFn
      \<longrightarrow> (\<exists>dt. DropThrowsAttribute_ctor cs (Some fromFn) (Some toFn) locator = Inr dt))"
proof -
  have e: "params \<noteq> [] \<and> length params \<le> length pmem
      \<longrightarrow> (\<exists>eg. ExplicitlySpecifyGenericArguments_ctor pmem cs params locator = Inr eg)"
    using uninitialized_copy_fits [of 0 params pmem]
    by (simp add: ExplicitlySpecifyGenericArguments_ctor_def)
  have a: "ExplicitlySpecifyGenericArguments_ctor pmem cs params locator = Inl AssertionFailure
      \<longleftrightarrow> params = []"
    using uninitialized_copy_no_assertion [of params 0 pmem]
    by (auto simp add: ExplicitlySpecifyGenericArguments_ctor_def split: sum.splits)
  show ?thesis
    using e a
    by (auto simp add: ForceOptional_ctor_def DropThrowsAttribute_ctor_def Let_def)
qed

theorem construction_preconditions_witness:
  "Some (NominalType ''A'') \<noteq> None \<and> Some (NominalType ''B'') \<noteq> None \<and>
   (\<exists>fo. ForceOptional_ctor (ConstraintSystem 0) (Some (NominalType ''A''))
           (Some (NominalType ''B'')) None = Inr fo) \<and>
   [Some (GenericTypeParamType 0 0)] \<noteq> [] \<and>
   length [Some (GenericTypeParamType 0 0)] \<le>
     length [None :: GenericTypeParamType pointer option] \<and>
   (\<exists>eg. ExplicitlySpecifyGenericArguments_ctor [None] (ConstraintSystem 0)
           [Some (GenericTypeParamType 0 0)] None = Inr eg) \<and>
   throws (FunctionType [] (NominalType ''Int'') True) \<noteq>
     throws (FunctionType [] (NominalType ''Int'') False) \<and>
   (\<exists>dt. DropThrowsAttribute_ctor (ConstraintSystem 0)
           (Some (FunctionType [] (NominalType ''Int'') True))
           (Some (FunctionType [] (NominalType ''Int'') False)) None = Inr dt)"
  using construction_preconditions
    [where cs = "ConstraintSystem 0" and locator = None
       and baseType = "Some (NominalType ''A'')" and unwrappedType = "Some (NominalType ''B'')"
       and pmem = "[None]" and params = "[Some (GenericTypeParamType 0 0)]"
       and fromFn = "FunctionType [] (NominalType ''Int'') True"
       and toFn = "FunctionType [] (NominalType ''Int'') False"]
  by simp

section \<open>MarkExplicitlyEscaping without a target type\<close>

text \<open>
  C10. \<^verbatim>\<open>MarkExplicitlyEscaping\<close> is constructed with no target type: when the argument
  \<^verbatim>\<open>convertingTo\<close> is left out, or is the null type, the constructor and the factory
  return a fix whose \<^verbatim>\<open>ConvertTo\<close> is null, of kind \<^verbatim>\<open>ExplicitlyEscaping\<close>. The
  constructor has no assertion, so that no value of the argument is rejected.
\<close>

theorem escaping_without_target_type:
  "MarkExplicitlyEscaping.ConvertTo (MarkExplicitlyEscaping_ctor cs locator None) = None \<and>
   MarkExplicitlyEscaping.ConvertTo (MarkExplicitlyEscaping_ctor cs locator (Some None)) = None \<and>
   MarkExplicitlyEscaping.ConvertTo (MarkExplicitlyEscaping_create cs locator None) = None \<and>
   MarkExplicitlyEscaping.ConvertTo
     (MarkExplicitlyEscaping_create cs locator (Some None)) = None \<and>
   getKind (MarkExplicitlyEscaping_ctor cs locator None) = FixKind.ExplicitlyEscaping \<and>
   getKind (MarkExplicitlyEscaping_create cs locator None) = FixKind.ExplicitlyEscaping \<and>
   getLocator (MarkExplicitlyEscaping_create cs locator None) = locator"
  by (simp add: MarkExplicitlyEscaping_create_def MarkExplicitlyEscaping_ctor_def
      Type_default_def ConstraintFix.defs MarkExplicitlyEscaping.defs getKind_def
      getLocator_def ConstraintFix_ctor_def)

end
